theory Spec2Isabelle
  imports Complex_Main "HOL-Library.AList" "HOL-Library.Log_Nat"
begin

section \<open>Common Python notions\<close>

text \<open>
  Exceptions are values.  The functions of the calculator and of the chain return
  \<open>error + 'a\<close>, with \<open>Inl\<close> for a raised exception.
\<close>

datatype error =
  ValueError | AttributeError | TypeError | ZeroDivisionError | OverflowError
| ProviderError string

text \<open>
  A Python float is a rational number.  \<open>int(x)\<close> truncates toward zero and
  \<open>round(x, 0)\<close> rounds half to even.  The body measures (BMI, BMR, TDEE, ideal
  weight) are computed over the rationals, operation by operation as written; the macro
  split, whose result depends on the rounding of each product, is computed in binary64
  (see \<open>fl\<close> below).
\<close>

definition py_int :: "rat \<Rightarrow> int" where
  "py_int x = (if 0 \<le> x then \<lfloor>x\<rfloor> else \<lceil>x\<rceil>)"

definition py_round :: "rat \<Rightarrow> rat" where
  "py_round x =
     (let f = \<lfloor>x\<rfloor>; d = x - of_int f
      in if d < 1 / 2 then of_int f
         else if 1 / 2 < d then of_int (f + 1)
         else if even f then of_int f else of_int (f + 1))"

definition py_round1 :: "rat \<Rightarrow> rat" where
  "py_round1 x = py_round (x * 10) / 10"

text \<open>
  Binary64 arithmetic.  \<open>expo x\<close> is the exponent \<open>e\<close> with
  \<open>2\<^sup>e \<le> x < 2\<^sup>e\<^sup>+\<^sup>1\<close> of a positive \<open>x\<close>, and \<open>fl x\<close> is \<open>x\<close> rounded to
  53 significant bits, ties to even: the double that an operation with exact result
  \<open>x\<close> returns, and the double that a decimal literal \<open>x\<close> denotes.  The exponent
  range is not bounded in \<open>fl\<close>; the one place where a value can leave the range of
  a double, the conversion of an integer, checks it: the exponent of a double is at most
  1023, and \<open>float_of_int\<close> raises OverflowError, as Python does, for an integer that
  rounds to \<open>2\<^sup>1\<^sup>0\<^sup>2\<^sup>4\<close> or more.
\<close>

definition expo :: "rat \<Rightarrow> int" where
  "expo x = (if 1 \<le> x then bitlen \<lfloor>x\<rfloor> - 1 else - bitlen (\<lceil>1 / x\<rceil> - 1))"

definition fl :: "rat \<Rightarrow> rat" where
  "fl x = (if x = 0 then 0
           else let u = 2 powi (expo \<bar>x\<bar> - 52) in py_round (x / u) * u)"

definition float_of_int :: "int \<Rightarrow> error + rat" where
  "float_of_int i =
     (let d = fl (of_int i)
      in if d \<noteq> 0 \<and> 1024 \<le> expo \<bar>d\<bar> then Inl OverflowError else Inr d)"

definition lower_char :: "char \<Rightarrow> char" where
  "lower_char c =
     (if of_char CHR ''A'' \<le> (of_char c :: nat) \<and> (of_char c :: nat) \<le> of_char CHR ''Z''
      then char_of (of_char c + (32 :: nat)) else c)"

definition lower :: "string \<Rightarrow> string" where
  "lower s = map lower_char s"

text \<open>Truth value of \<open>d.get(key)\<close> for a string-valued key: absent and empty are false.\<close>

fun truthy :: "string option \<Rightarrow> bool" where
  "truthy None = False"
| "truthy (Some s) = (s \<noteq> [])"

section \<open>The user profile\<close>

text \<open>
  The profile is a dictionary read with \<open>get\<close>; a key that may be missing is an option.
  The numeric fields are those the boundary layer has validated.
\<close>

record profile =
  name :: "string option"
  age :: int
  gender :: "string option"
  height_cm :: rat
  weight_kg :: rat
  fitness_goal :: "string option"
  activity_level :: "string option"
  dietary_preference :: "string option"
  experience_level :: "string option"
  workout_location :: "string option"
  workout_days_per_week :: int
  medical_conditions :: "string option"
  allergies :: "string option"

section \<open>backend/models/user.py: the enums\<close>

datatype FitnessGoal = LEAN | MUSCLE_GAIN | FAT_LOSS

datatype ActivityLevel =
  SEDENTARY | LIGHTLY_ACTIVE | MODERATELY_ACTIVE | VERY_ACTIVE | EXTREMELY_ACTIVE

text \<open>The enum constructor called on a value: \<open>FitnessGoal(v)\<close> raises ValueError
  when no member has that value (also for \<open>None\<close>).\<close>

definition FitnessGoal_of :: "string option \<Rightarrow> error + FitnessGoal" where
  "FitnessGoal_of v =
     (if v = Some ''lean'' then Inr LEAN
      else if v = Some ''muscle_gain'' then Inr MUSCLE_GAIN
      else if v = Some ''fat_loss'' then Inr FAT_LOSS
      else Inl ValueError)"

definition ActivityLevel_of :: "string option \<Rightarrow> error + ActivityLevel" where
  "ActivityLevel_of v =
     (if v = Some ''sedentary'' then Inr SEDENTARY
      else if v = Some ''lightly_active'' then Inr LIGHTLY_ACTIVE
      else if v = Some ''moderately_active'' then Inr MODERATELY_ACTIVE
      else if v = Some ''very_active'' then Inr VERY_ACTIVE
      else if v = Some ''extremely_active'' then Inr EXTREMELY_ACTIVE
      else Inl ValueError)"

section \<open>backend/services/calorie_service.py: CalorieCalculator\<close>

fun ACTIVITY_MULTIPLIERS :: "ActivityLevel \<Rightarrow> rat option" where
  "ACTIVITY_MULTIPLIERS SEDENTARY = Some (12 / 10)"
| "ACTIVITY_MULTIPLIERS LIGHTLY_ACTIVE = Some (1375 / 1000)"
| "ACTIVITY_MULTIPLIERS MODERATELY_ACTIVE = Some (155 / 100)"
| "ACTIVITY_MULTIPLIERS VERY_ACTIVE = Some (1725 / 1000)"
| "ACTIVITY_MULTIPLIERS EXTREMELY_ACTIVE = Some (19 / 10)"

fun GOAL_ADJUSTMENTS :: "FitnessGoal \<Rightarrow> rat option" where
  "GOAL_ADJUSTMENTS LEAN = Some (- 300)"
| "GOAL_ADJUSTMENTS MUSCLE_GAIN = Some 300"
| "GOAL_ADJUSTMENTS FAT_LOSS = Some (- 500)"

record ratios =
  protein :: rat
  carbs :: rat
  fats :: rat

text \<open>The ratios are float literals: each is the double nearest to its decimal.\<close>

fun MACRO_RATIOS :: "FitnessGoal \<Rightarrow> ratios option" where
  "MACRO_RATIOS LEAN =
     Some \<lparr>protein = fl (30 / 100), carbs = fl (40 / 100), fats = fl (30 / 100)\<rparr>"
| "MACRO_RATIOS MUSCLE_GAIN =
     Some \<lparr>protein = fl (30 / 100), carbs = fl (45 / 100), fats = fl (25 / 100)\<rparr>"
| "MACRO_RATIOS FAT_LOSS =
     Some \<lparr>protein = fl (35 / 100), carbs = fl (30 / 100), fats = fl (35 / 100)\<rparr>"

text \<open>\<open>MACRO_RATIOS[FitnessGoal.LEAN]\<close>, the default of both lookups in \<open>calculate_macros\<close>.\<close>

definition MACRO_RATIOS_LEAN :: ratios where
  "MACRO_RATIOS_LEAN =
     \<lparr>protein = fl (30 / 100), carbs = fl (40 / 100), fats = fl (30 / 100)\<rparr>"

definition calculate_bmi :: "rat \<Rightarrow> rat \<Rightarrow> error + rat" where
  "calculate_bmi w h =
     (let height_m = h / 100
      in if height_m ^ 2 = 0 then Inl ZeroDivisionError else Inr (w / height_m ^ 2))"

definition get_bmi_category :: "rat \<Rightarrow> string" where
  "get_bmi_category b =
     (if b < 185 / 10 then ''Underweight''
      else if b < 25 then ''Normal''
      else if b < 30 then ''Overweight''
      else ''Obese'')"

definition calculate_bmr :: "rat \<Rightarrow> rat \<Rightarrow> int \<Rightarrow> string option \<Rightarrow> error + rat" where
  "calculate_bmr w h a g =
     (case g of
        None \<Rightarrow> Inl AttributeError
      | Some s \<Rightarrow>
          Inr (py_round
            (if lower s = ''male''
             then 10 * w + (625 / 100) * h - 5 * of_int a + 5
             else 10 * w + (625 / 100) * h - 5 * of_int a - 161)))"

definition calculate_tdee :: "rat \<Rightarrow> string option \<Rightarrow> rat" where
  "calculate_tdee b act =
     (let multiplier =
        (case ActivityLevel_of act of
           Inr activity \<Rightarrow>
             (case ACTIVITY_MULTIPLIERS activity of Some m \<Rightarrow> m | None \<Rightarrow> 155 / 100)
         | Inl _ \<Rightarrow> 155 / 100)
      in py_round (b * multiplier))"

definition calculate_daily_calories :: "rat \<Rightarrow> string option \<Rightarrow> int" where
  "calculate_daily_calories t g =
     (let adjustment =
        (case FitnessGoal_of g of
           Inr goal \<Rightarrow> (case GOAL_ADJUSTMENTS goal of Some a \<Rightarrow> a | None \<Rightarrow> 0)
         | Inl _ \<Rightarrow> 0);
          calories = t + adjustment;
          min_calories = 1200
      in max (py_int calories) min_calories)"

record macros =
  protein_g :: int
  carbs_g :: int
  fats_g :: int

text \<open>
  \<open>daily_calories * ratio\<close> converts the integer to a double and multiplies, and
  \<open>protein_cals / 4\<close> divides by the double 4.0: each operation rounds its exact
  result.  The products and quotients of an integer other than zero are at least 1/40
  in magnitude and smaller than the integer, so they stay in the range of a double.
\<close>

definition calculate_macros :: "int \<Rightarrow> string option \<Rightarrow> error + macros" where
  "calculate_macros dc g =
     (let rs =
        (case FitnessGoal_of g of
           Inr goal \<Rightarrow> (case MACRO_RATIOS goal of Some r \<Rightarrow> r | None \<Rightarrow> MACRO_RATIOS_LEAN)
         | Inl _ \<Rightarrow> MACRO_RATIOS_LEAN)
      in case float_of_int dc of
           Inl e \<Rightarrow> Inl e
         | Inr d \<Rightarrow>
             (let protein_cals = fl (d * protein rs);
                  carbs_cals = fl (d * carbs rs);
                  fats_cals = fl (d * fats rs)
              in Inr \<lparr>protein_g = py_int (fl (protein_cals / 4)),
                      carbs_g = py_int (fl (carbs_cals / 4)),
                      fats_g = py_int (fl (fats_cals / 9))\<rparr>))"

text \<open>The result dictionary of \<open>calculate_all\<close>.  Its macro keys are prefixed with
  \<open>s_\<close>, the names without prefix being the fields of the \<open>calculate_macros\<close> result.\<close>

record macro_percentages =
  pct_protein :: int
  pct_carbs :: int
  pct_fats :: int

record stats =
  bmi :: rat
  bmi_category :: string
  bmr :: int
  tdee :: int
  daily_calories :: int
  s_protein_g :: int
  s_carbs_g :: int
  s_fats_g :: int
  ideal_weight_min :: rat
  ideal_weight_max :: rat
  water_ml :: int
  s_macro_percentages :: macro_percentages

text \<open>\<open>int(MACRO_RATIOS.get(FitnessGoal(goal), {}).get(key, default) * 100)\<close>: the enum
  constructor is called outside any \<open>try\<close>.\<close>

definition macro_percentage ::
  "string option \<Rightarrow> (ratios \<Rightarrow> rat) \<Rightarrow> rat \<Rightarrow> error + int" where
  "macro_percentage g key dflt =
     (case FitnessGoal_of g of
        Inl e \<Rightarrow> Inl e
      | Inr goal \<Rightarrow>
          Inr (py_int (fl ((case MACRO_RATIOS goal of Some r \<Rightarrow> key r | None \<Rightarrow> dflt) * 100))))"

definition calculate_all :: "profile \<Rightarrow> error + stats" where
  "calculate_all user_profile =
     (let weight = weight_kg user_profile;
          height = height_cm user_profile;
          a = age user_profile;
          g = gender user_profile;
          activity = activity_level user_profile;
          goal = fitness_goal user_profile
      in case calculate_bmi weight height of
           Inl e \<Rightarrow> Inl e
         | Inr b \<Rightarrow>
        (let category = get_bmi_category b
         in case calculate_bmr weight height a g of
              Inl e \<Rightarrow> Inl e
            | Inr br \<Rightarrow>
           (let t = calculate_tdee br activity;
                dc = calculate_daily_calories t goal
            in case calculate_macros dc goal of
                 Inl e \<Rightarrow> Inl e
               | Inr ms \<Rightarrow>
              (let height_m = height / 100;
                   iw_min = py_round1 ((185 / 10) * height_m ^ 2);
                   iw_max = py_round1 ((249 / 10) * height_m ^ 2);
                   water = py_int (weight * 35)
               in case macro_percentage goal protein (fl (3 / 10)) of
                    Inl e \<Rightarrow> Inl e
                  | Inr pp \<Rightarrow>
                 (case macro_percentage goal carbs (fl (4 / 10)) of
                    Inl e \<Rightarrow> Inl e
                  | Inr pc \<Rightarrow>
                 (case macro_percentage goal fats (fl (3 / 10)) of
                    Inl e \<Rightarrow> Inl e
                  | Inr pf \<Rightarrow>
                    Inr \<lparr>bmi = py_round1 b,
                         bmi_category = category,
                         bmr = py_int br,
                         tdee = py_int t,
                         daily_calories = dc,
                         s_protein_g = protein_g ms,
                         s_carbs_g = carbs_g ms,
                         s_fats_g = fats_g ms,
                         ideal_weight_min = iw_min,
                         ideal_weight_max = iw_max,
                         water_ml = water,
                         s_macro_percentages =
                           \<lparr>pct_protein = pp, pct_carbs = pc, pct_fats = pf\<rparr>\<rparr>))))))"

section \<open>Python values and dictionaries\<close>

text \<open>JSON-like values: the metadata of documents and the items of the knowledge base.
  A dictionary is an association list in insertion order with distinct keys.\<close>

datatype json =
  JNull | JBool bool | JInt int | JNum rat | JStr string
| JList "json list" | JDict "(string \<times> json) list"

type_synonym dict = "(string \<times> json) list"

definition dict_get :: "dict \<Rightarrow> string \<Rightarrow> json \<Rightarrow> json" where
  "dict_get d k dflt = (case map_of d k of Some v \<Rightarrow> v | None \<Rightarrow> dflt)"

text \<open>\<open>{**a, **b}\<close>: the entries of \<open>b\<close> are written over \<open>a\<close> in order.\<close>

definition dict_merge :: "dict \<Rightarrow> dict \<Rightarrow> dict" where
  "dict_merge a b = fold (\<lambda>(k, v). AList.update k v) b a"

fun join :: "string \<Rightarrow> string list \<Rightarrow> string" where
  "join sep [] = []"
| "join sep [x] = x"
| "join sep (x # y # ys) = x @ sep @ join sep (y # ys)"

section \<open>backend/rag/embeddings.py and backend/rag/vectorstore.py: the gateways\<close>

text \<open>
  The embedding model and the remote index are external: the model is the function
  that embeds a query, the index handle is the function that answers a similarity query.
  Either may raise.
\<close>

type_synonym filter_dict = "(string \<times> (string \<times> string) list) list"

record match =
  match_id :: string
  match_score :: rat
  match_metadata :: "dict option"

type_synonym index = "rat list \<Rightarrow> int \<Rightarrow> string \<Rightarrow> filter_dict option \<Rightarrow> error + match list"

record embedding_manager =
  embeddings :: "(string \<Rightarrow> error + rat list) option"

definition embedding_is_available :: "embedding_manager \<Rightarrow> bool" where
  "embedding_is_available em = (embeddings em \<noteq> None)"

definition embed_query :: "embedding_manager \<Rightarrow> string \<Rightarrow> error + rat list" where
  "embed_query em text =
     (case embeddings em of
        None \<Rightarrow> Inl (ProviderError ''No embedding model available'')
      | Some model \<Rightarrow> model text)"

text \<open>\<open>pc\<close> is whether the client object exists; \<open>index_handle\<close> is what
  \<open>get_index\<close> yields for an available manager (\<open>None\<close> when the handle could not
  be created).\<close>

record pinecone_manager =
  initialized :: bool
  pc :: bool
  index_handle :: "index option"

definition pinecone_is_available :: "pinecone_manager \<Rightarrow> bool" where
  "pinecone_is_available pm = (initialized pm \<and> pc pm)"

definition get_index :: "pinecone_manager \<Rightarrow> index option" where
  "get_index pm = (if \<not> pinecone_is_available pm then None else index_handle pm)"

record query_result =
  result_id :: string
  result_score :: rat
  result_metadata :: dict
  result_text :: json

definition match_to_result :: "match \<Rightarrow> query_result" where
  "match_to_result m =
     (let md = (case match_metadata m of Some d \<Rightarrow> d | None \<Rightarrow> [])
      in \<lparr>result_id = match_id m,
          result_score = match_score m,
          result_metadata = md,
          result_text = dict_get md ''text'' (JStr [])\<rparr>)"

text \<open>\<open>PineconeManager.query\<close>: every exception of the body is caught and gives
  the empty list.\<close>

definition query ::
  "pinecone_manager \<Rightarrow> embedding_manager \<Rightarrow> string \<Rightarrow> int \<Rightarrow> string
     \<Rightarrow> filter_dict option \<Rightarrow> query_result list" where
  "query pm em q top_k namespace flt =
     (if \<not> pinecone_is_available pm then []
      else if \<not> embedding_is_available em then []
      else case embed_query em q of
             Inl _ \<Rightarrow> []
           | Inr query_embedding \<Rightarrow>
               (case get_index pm of
                  None \<Rightarrow> []
                | Some ix \<Rightarrow>
                    (case ix query_embedding top_k namespace flt of
                       Inl _ \<Rightarrow> []
                     | Inr matches \<Rightarrow> map match_to_result matches)))"

section \<open>backend/rag/retriever.py: FitnessRetriever\<close>

record document =
  page_content :: json
  metadata :: dict

record retriever =
  pinecone :: pinecone_manager
  embedding :: embedding_manager

definition is_available :: "retriever \<Rightarrow> bool" where
  "is_available r =
     (pinecone_is_available (pinecone r) \<and> embedding_is_available (embedding r))"

definition build_workout_filter :: "profile \<Rightarrow> filter_dict option" where
  "build_workout_filter user_profile =
     (let filters0 = [];
          filters1 =
            (case experience_level user_profile of
               Some lvl \<Rightarrow>
                 if lvl \<noteq> [] then AList.update ''experience_level'' [(''$eq'', lvl)] filters0
                 else filters0
             | None \<Rightarrow> filters0);
          filters2 =
            (case workout_location user_profile of
               Some location \<Rightarrow>
                 if location \<noteq> [] then
                   (if location \<noteq> ''both''
                    then AList.update ''location'' [(''$eq'', location)] filters1
                    else filters1)
                 else filters1
             | None \<Rightarrow> filters1)
      in if filters2 \<noteq> [] then Some filters2 else None)"

definition build_diet_filter :: "profile \<Rightarrow> filter_dict option" where
  "build_diet_filter user_profile =
     (let filters0 = [];
          filters1 =
            (case dietary_preference user_profile of
               Some pref \<Rightarrow>
                 if pref \<noteq> [] then AList.update ''dietary_type'' [(''$eq'', pref)] filters0
                 else filters0
             | None \<Rightarrow> filters0)
      in if filters1 \<noteq> [] then Some filters1 else None)"

text \<open>One enhancement per field that is present and not empty.\<close>

definition hint :: "string \<Rightarrow> string option \<Rightarrow> string list" where
  "hint label v =
     (case v of Some s \<Rightarrow> if s \<noteq> [] then [label @ s] else [] | None \<Rightarrow> [])"

definition enhance_query :: "string \<Rightarrow> profile \<Rightarrow> string \<Rightarrow> string" where
  "enhance_query q user_profile context_type =
     (let enhancements =
        (if context_type = ''workout'' then
           hint ''Goal: '' (fitness_goal user_profile)
           @ hint ''Level: '' (experience_level user_profile)
           @ hint ''Location: '' (workout_location user_profile)
         else if context_type = ''diet'' then
           hint ''Preference: '' (dietary_preference user_profile)
           @ hint ''Goal: '' (fitness_goal user_profile)
         else [])
      in if enhancements \<noteq> [] then q @ '' ['' @ join '' | '' enhancements @ '']''
         else q)"

definition results_to_documents :: "query_result list \<Rightarrow> document list" where
  "results_to_documents results =
     map (\<lambda>r. \<lparr>page_content = result_text r,
                metadata = dict_merge
                  [(''id'', JStr (result_id r)), (''score'', JNum (result_score r))]
                  (result_metadata r)\<rparr>) results"

definition fallback_workout_text :: string where
  "fallback_workout_text =
      ''\<newline>'' @
      ''                # General Workout Guidelines\<newline>'' @
      ''                \<newline>'' @
      ''                ## Beginner Full Body Workout (3 days/week)\<newline>'' @
      ''                - Squats: 3 sets x 10-12 reps\<newline>'' @
      ''                - Push-ups: 3 sets x 8-12 reps\<newline>'' @
      ''                - Dumbbell Rows: 3 sets x 10 reps each arm\<newline>'' @
      ''                - Lunges: 3 sets x 10 reps each leg\<newline>'' @
      ''                - Plank: 3 sets x 30 seconds\<newline>'' @
      ''                \<newline>'' @
      ''                ## Intermediate Split (4 days/week)\<newline>'' @
      ''                Day 1: Chest & Triceps\<newline>'' @
      ''                Day 2: Back & Biceps\<newline>'' @
      ''                Day 3: Rest\<newline>'' @
      ''                Day 4: Legs\<newline>'' @
      ''                Day 5: Shoulders & Core\<newline>'' @
      ''                \<newline>'' @
      ''                ## Important Notes\<newline>'' @
      ''                - Always warm up for 5-10 minutes\<newline>'' @
      ''                - Rest 60-90 seconds between sets\<newline>'' @
      ''                - Stay hydrated\<newline>'' @
      ''                - Progressive overload is key\<newline>'' @
      ''                ''"

definition fallback_diet_text :: string where
  "fallback_diet_text =
      ''\<newline>'' @
      ''                # General Diet Guidelines\<newline>'' @
      ''                \<newline>'' @
      ''                ## Indian Vegetarian High Protein Foods\<newline>'' @
      ''                - Paneer: 18g protein per 100g\<newline>'' @
      ''                - Dal (Lentils): 9g protein per 100g\<newline>'' @
      ''                - Chickpeas: 19g protein per 100g\<newline>'' @
      ''                - Greek Yogurt: 10g protein per 100g\<newline>'' @
      ''                - Soy chunks: 52g protein per 100g\<newline>'' @
      ''                \<newline>'' @
      ''                ## Sample Meal Plan (2000 kcal)\<newline>'' @
      ''                Breakfast: Paneer bhurji with 2 rotis (500 kcal)\<newline>'' @
      ''                Snack: Sprouts chaat (200 kcal)\<newline>'' @
      ''                Lunch: Rajma chawal with salad (600 kcal)\<newline>'' @
      ''                Snack: Protein shake with banana (250 kcal)\<newline>'' @
      ''                Dinner: Dal with roti and vegetables (450 kcal)\<newline>'' @
      ''                \<newline>'' @
      ''                ## Macro Split for Muscle Gain\<newline>'' @
      ''                - Protein: 30% (150g)\<newline>'' @
      ''                - Carbs: 45% (225g)\<newline>'' @
      ''                - Fats: 25% (55g)\<newline>'' @
      ''                ''"

definition get_fallback_workout_docs :: "document list" where
  "get_fallback_workout_docs =
     [\<lparr>page_content = JStr fallback_workout_text,
       metadata = [(''type'', JStr ''workout''), (''source'', JStr ''fallback''),
                   (''score'', JNum (5 / 10))]\<rparr>]"

definition get_fallback_diet_docs :: "document list" where
  "get_fallback_diet_docs =
     [\<lparr>page_content = JStr fallback_diet_text,
       metadata = [(''type'', JStr ''diet''), (''source'', JStr ''fallback''),
                   (''score'', JNum (5 / 10))]\<rparr>]"

definition retrieve_workout_context ::
  "retriever \<Rightarrow> string \<Rightarrow> profile \<Rightarrow> int \<Rightarrow> document list" where
  "retrieve_workout_context r q user_profile top_k =
     (if \<not> is_available r then get_fallback_workout_docs
      else
        let filter_dict = build_workout_filter user_profile;
            enhanced_query = enhance_query q user_profile ''workout'';
            results = query (pinecone r) (embedding r) enhanced_query top_k ''workouts'' filter_dict;
            docs = results_to_documents results
        in if docs \<noteq> [] then docs else get_fallback_workout_docs)"

definition retrieve_diet_context ::
  "retriever \<Rightarrow> string \<Rightarrow> profile \<Rightarrow> int \<Rightarrow> document list" where
  "retrieve_diet_context r q user_profile top_k =
     (if \<not> is_available r then get_fallback_diet_docs
      else
        let filter_dict = build_diet_filter user_profile;
            enhanced_query = enhance_query q user_profile ''diet'';
            results = query (pinecone r) (embedding r) enhanced_query top_k ''diets'' filter_dict;
            docs = results_to_documents results
        in if docs \<noteq> [] then docs else get_fallback_diet_docs)"

record retrieved_context =
  workouts :: "document list"
  diets :: "document list"

definition retrieve_combined_context ::
  "retriever \<Rightarrow> string \<Rightarrow> profile \<Rightarrow> int \<Rightarrow> retrieved_context" where
  "retrieve_combined_context r q user_profile top_k_each =
     (let workout_docs = retrieve_workout_context r q user_profile top_k_each;
          diet_docs = retrieve_diet_context r q user_profile top_k_each
      in \<lparr>workouts = workout_docs, diets = diet_docs\<rparr>)"

section \<open>Formatting\<close>

text \<open>
  \<open>str(v)\<close> of a value and the fixed-point format \<open>f"{x:.nf}"\<close> of a float belong to
  the Python runtime; the functions that format take them in a record.  The decimal
  \<open>str\<close> of an integer is written out.
\<close>

record py_format =
  str_of :: "json \<Rightarrow> string"
  fixed :: "nat \<Rightarrow> rat \<Rightarrow> string"

definition digit_char :: "nat \<Rightarrow> char" where
  "digit_char d = char_of (48 + d)"

function str_nat :: "nat \<Rightarrow> string" where
  "str_nat n = (if n < 10 then [digit_char n] else str_nat (n div 10) @ [digit_char (n mod 10)])"
  by pat_completeness auto
termination
  by (relation "measure id") auto

definition str_int :: "int \<Rightarrow> string" where
  "str_int i = (if i < 0 then ''-'' @ str_nat (nat (- i)) else str_nat (nat i))"

section \<open>backend/rag/chain.py: FitnessRAGChain\<close>


record prompt_inputs =
  pi_user_name :: string
  pi_age :: int
  pi_gender :: "string option"
  pi_height_cm :: rat
  pi_weight_kg :: rat
  pi_bmi :: rat
  pi_fitness_goal :: "string option"
  pi_activity_level :: "string option"
  pi_experience_level :: "string option"
  pi_workout_location :: "string option"
  pi_workout_days :: int
  pi_dietary_preference :: "string option"
  pi_medical_conditions :: string
  pi_allergies :: string
  pi_daily_calories :: int
  pi_protein_g :: int
  pi_carbs_g :: int
  pi_fats_g :: int
  pi_progress_context :: string
  pi_workout_context :: string
  pi_diet_context :: string
  pi_user_query :: string

text \<open>The chain object: its retriever and its generation backend.  \<open>llm\<close> is
  \<open>None\<close> when no backend is configured; otherwise it is the invocation of
  prompt, model and output parser on the inputs, which may raise.\<close>

record chain =
  chain_retriever :: retriever
  llm :: "(prompt_inputs \<Rightarrow> error + string) option"

definition chain_is_available :: "chain \<Rightarrow> bool" where
  "chain_is_available c = (llm c \<noteq> None)"

record source =
  source_id :: json
  source_type :: string
  source_score :: json
  source_title :: json







definition generate_follow_ups :: "profile \<Rightarrow> string \<Rightarrow> string list" where
  "generate_follow_ups user_profile plan_type =
     (let questions1 =
            (if \<not> truthy (medical_conditions user_profile)
             then [''Do you have any medical conditions or injuries I should consider?'']
             else []);
          questions2 =
            (if \<not> truthy (allergies user_profile)
             then questions1 @ [''Do you have any food allergies or intolerances?'']
             else questions1);
          questions3 =
            (if plan_type \<in> set [''workout'', ''both'']
             then questions2 @ [''Do you have access to specific gym equipment?'',
                                ''How much time can you dedicate to each workout session?'']
             else questions2);
          questions4 =
            (if plan_type \<in> set [''diet'', ''both'']
             then questions3 @ [''Do you prefer meal prepping or cooking fresh daily?'',
                                ''Are there any specific foods you dislike?'']
             else questions3)
      in take 3 questions4)"



section \<open>backend/rag/ingestion.py: FitnessDataIngester\<close>

text \<open>
  The text splitter and \<open>hashlib.md5\<close> are library functions, the clock is the
  system's: the ingester takes them as parameters.  \<open>now k\<close> is the reading of
  \<open>datetime.utcnow().isoformat()\<close> made for the chunk with index \<open>k\<close>.
\<close>

record ingester =
  split_text :: "string \<Rightarrow> string list"
  md5_hexdigest :: "string \<Rightarrow> string"
  ing_format :: py_format

record chunk =
  chunk_id :: string
  chunk_text :: string
  chunk_metadata :: dict

fun json_truthy :: "json \<Rightarrow> bool" where
  "json_truthy JNull = False"
| "json_truthy (JBool b) = b"
| "json_truthy (JInt i) = (i \<noteq> 0)"
| "json_truthy (JNum x) = (x \<noteq> 0)"
| "json_truthy (JStr s) = (s \<noteq> [])"
| "json_truthy (JList xs) = (xs \<noteq> [])"
| "json_truthy (JDict d) = (d \<noteq> [])"

text \<open>What a \<open>for\<close> loop over a value visits: the elements of a list, the
  characters of a string, the keys of a dictionary; other values are not iterable.\<close>

fun iterate :: "json \<Rightarrow> error + json list" where
  "iterate (JList xs) = Inr xs"
| "iterate (JStr s) = Inr (map (\<lambda>c. JStr [c]) s)"
| "iterate (JDict d) = Inr (map (\<lambda>kv. JStr (fst kv)) d)"
| "iterate _ = Inl TypeError"

definition exercise_text :: "py_format \<Rightarrow> json \<Rightarrow> error + string" where
  "exercise_text F exercise =
     (case exercise of
        JDict e \<Rightarrow>
          (let ex_text0 = ''- '' @ str_of F (dict_get e ''name'' (JStr ''Exercise''));
               ex_text1 =
                 (if json_truthy (dict_get e ''sets'' JNull)
                  then ex_text0 @ '': '' @ str_of F (dict_get e ''sets'' JNull) @ '' sets''
                  else ex_text0);
               ex_text2 =
                 (if json_truthy (dict_get e ''reps'' JNull)
                  then ex_text1 @ '' x '' @ str_of F (dict_get e ''reps'' JNull)
                  else ex_text1)
           in Inr ex_text2)
      | _ \<Rightarrow> Inl AttributeError)"

fun exercises_text :: "py_format \<Rightarrow> json list \<Rightarrow> error + string list" where
  "exercises_text F [] = Inr []"
| "exercises_text F (x # xs) =
     (case exercise_text F x of
        Inl e \<Rightarrow> Inl e
      | Inr t \<Rightarrow> (case exercises_text F xs of Inl e \<Rightarrow> Inl e | Inr ts \<Rightarrow> Inr (t # ts)))"

definition food_text :: "py_format \<Rightarrow> json \<Rightarrow> string" where
  "food_text F food =
     (case food of
        JDict f \<Rightarrow>
          ''- '' @ str_of F (dict_get f ''name'' (JStr ''Food'')) @ '': ''
            @ str_of F (dict_get f ''portion'' (JStr []))
      | _ \<Rightarrow> ''- '' @ str_of F food)"

definition meal_text :: "py_format \<Rightarrow> json \<Rightarrow> error + string list" where
  "meal_text F meal =
     (case meal of
        JDict m \<Rightarrow>
          (let header = ''\<newline>### '' @ str_of F (dict_get m ''name'' (JStr ''Meal''))
           in if json_truthy (dict_get m ''items'' JNull)
              then (case iterate (dict_get m ''items'' JNull) of
                      Inl e \<Rightarrow> Inl e
                    | Inr foods \<Rightarrow> Inr (header # map (food_text F) foods))
              else Inr [header])
      | _ \<Rightarrow> Inl AttributeError)"

fun meals_text :: "py_format \<Rightarrow> json list \<Rightarrow> error + string list" where
  "meals_text F [] = Inr []"
| "meals_text F (x # xs) =
     (case meal_text F x of
        Inl e \<Rightarrow> Inl e
      | Inr t \<Rightarrow> (case meals_text F xs of Inl e \<Rightarrow> Inl e | Inr ts \<Rightarrow> Inr (t @ ts)))"

text \<open>The keys of the scalar fields with their \<open>key.title()\<close>.\<close>

definition scalar_keys :: "(string \<times> string) list" where
  "scalar_keys =
     [(''level'', ''Level''), (''goal'', ''Goal''), (''location'', ''Location''),
      (''duration'', ''Duration''), (''calories'', ''Calories'')]"

definition json_to_text :: "py_format \<Rightarrow> dict \<Rightarrow> string \<Rightarrow> error + string" where
  "json_to_text F item doc_type =
     (let parts0 = [''# '' @ str_of F (dict_get item ''name'' (dict_get item ''title'' (JStr ''Item'')))];
          parts1 =
            (if json_truthy (dict_get item ''description'' JNull)
             then parts0 @ [''\<newline>'' @ str_of F (dict_get item ''description'' JNull)]
             else parts0);
          parts2 = parts1 @
            concat (map (\<lambda>(key, titled).
                      if json_truthy (dict_get item key JNull)
                      then [titled @ '': '' @ str_of F (dict_get item key JNull)] else [])
                    scalar_keys)
      in case (if json_truthy (dict_get item ''exercises'' JNull)
               then (case iterate (dict_get item ''exercises'' JNull) of
                       Inl e \<Rightarrow> Inl e
                     | Inr exs \<Rightarrow>
                         (case exercises_text F exs of
                            Inl e \<Rightarrow> Inl e
                          | Inr ts \<Rightarrow> Inr (parts2 @ [''\<newline>## Exercises:''] @ ts)))
               else Inr parts2) of
           Inl e \<Rightarrow> Inl e
         | Inr parts3 \<Rightarrow>
            (case (if json_truthy (dict_get item ''meals'' JNull)
                   then (case iterate (dict_get item ''meals'' JNull) of
                           Inl e \<Rightarrow> Inl e
                         | Inr ms \<Rightarrow>
                             (case meals_text F ms of
                                Inl e \<Rightarrow> Inl e
                              | Inr ts \<Rightarrow> Inr (parts3 @ [''\<newline>## Meals:''] @ ts)))
                   else Inr parts3) of
               Inl e \<Rightarrow> Inl e
             | Inr parts4 \<Rightarrow> Inr (join ''\<newline>'' parts4)))"

definition generate_chunk_id :: "ingester \<Rightarrow> string \<Rightarrow> int \<Rightarrow> int \<Rightarrow> string" where
  "generate_chunk_id I source item_idx chunk_idx =
     (let content = source @ ''_'' @ str_int item_idx @ ''_'' @ str_int chunk_idx
      in md5_hexdigest I content)"

definition make_chunk ::
  "ingester \<Rightarrow> dict \<Rightarrow> string \<Rightarrow> int \<Rightarrow> string \<Rightarrow> (nat \<Rightarrow> string) \<Rightarrow> nat \<times> string \<Rightarrow> chunk" where
  "make_chunk I item source_file idx doc_type now p =
     (let chunk_idx = fst p;
          text = snd p;
          cid = generate_chunk_id I source_file idx (int chunk_idx);
          md =
            [(''source_file'', JStr source_file),
             (''doc_type'', JStr doc_type),
             (''type'', dict_get item ''type'' (JStr doc_type)),
             (''title'', dict_get item ''name''
                 (dict_get item ''title'' (JStr (doc_type @ ''_'' @ str_int idx)))),
             (''experience_level'', dict_get item ''level''
                 (dict_get item ''experience_level'' (JStr ''all''))),
             (''location'', dict_get item ''location'' (JStr ''both'')),
             (''dietary_type'', dict_get item ''dietary_type''
                 (dict_get item ''preference'' (JStr ''all''))),
             (''goal'', dict_get item ''goal'' (JStr ''general'')),
             (''chunk_index'', JInt (int chunk_idx)),
             (''ingested_at'', JStr (now chunk_idx))]
      in \<lparr>chunk_id = cid, chunk_text = text, chunk_metadata = md\<rparr>)"

definition chunk_json_item ::
  "ingester \<Rightarrow> json \<Rightarrow> string \<Rightarrow> int \<Rightarrow> string \<Rightarrow> (nat \<Rightarrow> string) \<Rightarrow> error + chunk list" where
  "chunk_json_item I item source_file idx doc_type now =
     (case item of
        JDict d \<Rightarrow>
          (case json_to_text (ing_format I) d doc_type of
             Inl e \<Rightarrow> Inl e
           | Inr text_content \<Rightarrow>
               (let text_chunks = split_text I text_content
                in Inr (map (make_chunk I d source_file idx doc_type now)
                          (zip [0 ..< length text_chunks] text_chunks))))
      | _ \<Rightarrow> Inl AttributeError)"

text \<open>The loop \<open>for idx, item in enumerate(items)\<close> of \<open>_process_json_file\<close>; an
  exception of one item ends the file.  \<open>now idx\<close> is the clock during item \<open>idx\<close>.\<close>

fun chunk_items ::
  "ingester \<Rightarrow> string \<Rightarrow> string \<Rightarrow> (nat \<Rightarrow> nat \<Rightarrow> string) \<Rightarrow> nat \<Rightarrow> json list
     \<Rightarrow> error + chunk list" where
  "chunk_items I stem doc_type now idx [] = Inr []"
| "chunk_items I stem doc_type now idx (item # rest) =
     (case chunk_json_item I item stem (int idx) doc_type (now idx) of
        Inl e \<Rightarrow> Inl e
      | Inr item_chunks \<Rightarrow>
          (case chunk_items I stem doc_type now (Suc idx) rest of
             Inl e \<Rightarrow> Inl e
           | Inr rest_chunks \<Rightarrow> Inr (item_chunks @ rest_chunks)))"

text \<open>\<open>_process_json_file\<close> after the file has been read: \<open>data\<close> is the parsed
  JSON and \<open>stem\<close> the file name without suffix.\<close>

definition process_json_file ::
  "ingester \<Rightarrow> json \<Rightarrow> string \<Rightarrow> string \<Rightarrow> (nat \<Rightarrow> nat \<Rightarrow> string) \<Rightarrow> error + chunk list" where
  "process_json_file I data stem doc_type now =
     (case data of
        JList items \<Rightarrow> chunk_items I stem doc_type now 0 items
      | JDict d \<Rightarrow>
          (if ''items'' \<in> fst ` set d
           then (case iterate (dict_get d ''items'' JNull) of
                   Inl e \<Rightarrow> Inl e
                 | Inr items \<Rightarrow> chunk_items I stem doc_type now 0 items)
           else chunk_json_item I data stem 0 doc_type (now 0))
      | _ \<Rightarrow> Inr [])"

section \<open>Auxiliary notions of the proofs\<close>

text \<open>The ratio set that \<open>calculate_macros\<close> selects for a goal string.\<close>

definition goal_ratios :: "string option \<Rightarrow> ratios" where
  "goal_ratios g =
     (case FitnessGoal_of g of
        Inr goal \<Rightarrow> (case MACRO_RATIOS goal of Some r \<Rightarrow> r | None \<Rightarrow> MACRO_RATIOS_LEAN)
      | Inl _ \<Rightarrow> MACRO_RATIOS_LEAN)"

text \<open>The ranges in which the boundary layer keeps the numeric fields of a profile.\<close>

definition valid_profile :: "profile \<Rightarrow> bool" where
  "valid_profile p =
     (16 \<le> age p \<and> age p \<le> 80 \<and> 100 \<le> height_cm p \<and> height_cm p \<le> 250
      \<and> 30 \<le> weight_kg p \<and> weight_kg p \<le> 300)"

text \<open>The identifiers of the chunks of a run, or its exception.\<close>

definition chunk_ids :: "error + chunk list \<Rightarrow> error + string list" where
  "chunk_ids r = (case r of Inl e \<Rightarrow> Inl e | Inr cs \<Rightarrow> Inr (map chunk_id cs))"

text \<open>The entries that the two rules of \<open>_build_workout_filter\<close> contribute.\<close>

definition experience_entry :: "profile \<Rightarrow> filter_dict" where
  "experience_entry p =
     (case experience_level p of
        Some lvl \<Rightarrow> if lvl \<noteq> [] then [(''experience_level'', [(''$eq'', lvl)])] else []
      | None \<Rightarrow> [])"

definition location_entry :: "profile \<Rightarrow> filter_dict" where
  "location_entry p =
     (case workout_location p of
        Some loc \<Rightarrow>
          if loc \<noteq> [] \<and> loc \<noteq> ''both'' then [(''location'', [(''$eq'', loc)])] else []
      | None \<Rightarrow> [])"

text \<open>The questions of every rule of \<open>_generate_follow_ups\<close> that fires, in the order
  of the rules, before the cut to three.\<close>

definition all_follow_ups :: "profile \<Rightarrow> string \<Rightarrow> string list" where
  "all_follow_ups p plan_type =
     (if \<not> truthy (medical_conditions p)
      then [''Do you have any medical conditions or injuries I should consider?''] else [])
     @ (if \<not> truthy (allergies p)
        then [''Do you have any food allergies or intolerances?''] else [])
     @ (if plan_type = ''workout'' \<or> plan_type = ''both''
        then [''Do you have access to specific gym equipment?'',
              ''How much time can you dedicate to each workout session?''] else [])
     @ (if plan_type = ''diet'' \<or> plan_type = ''both''
        then [''Do you prefer meal prepping or cooking fresh daily?'',
              ''Are there any specific foods you dislike?''] else [])"





text \<open>The identifiers that \<open>_chunk_json_item\<close> gives the chunks of one item, and
  \<open>_process_json_file\<close> those of a list of items: no clock among the arguments.\<close>

definition item_chunk_ids ::
  "ingester \<Rightarrow> json \<Rightarrow> string \<Rightarrow> int \<Rightarrow> string \<Rightarrow> error + string list" where
  "item_chunk_ids I item source_file idx doc_type =
     (case item of
        JDict d \<Rightarrow>
          (case json_to_text (ing_format I) d doc_type of
             Inl e \<Rightarrow> Inl e
           | Inr text_content \<Rightarrow>
               Inr (map (\<lambda>k. generate_chunk_id I source_file idx (int k))
                      [0 ..< length (split_text I text_content)]))
      | _ \<Rightarrow> Inl AttributeError)"

fun items_chunk_ids ::
  "ingester \<Rightarrow> string \<Rightarrow> string \<Rightarrow> nat \<Rightarrow> json list \<Rightarrow> error + string list" where
  "items_chunk_ids I stem doc_type idx [] = Inr []"
| "items_chunk_ids I stem doc_type idx (item # rest) =
     (case item_chunk_ids I item stem (int idx) doc_type of
        Inl e \<Rightarrow> Inl e
      | Inr ids \<Rightarrow>
          (case items_chunk_ids I stem doc_type (Suc idx) rest of
             Inl e \<Rightarrow> Inl e
           | Inr rest_ids \<Rightarrow> Inr (ids @ rest_ids)))"

section \<open>Example inputs\<close>

text \<open>A profile at the lower end of every validated range, with both free-text fields
  filled in.\<close>

definition small_profile :: profile where
  "small_profile =
     \<lparr>name = Some ''Asha'', age = 80, gender = Some ''female'', height_cm = 100, weight_kg = 30,
      fitness_goal = Some ''fat_loss'', activity_level = Some ''sedentary'',
      dietary_preference = Some ''vegan'', experience_level = Some ''beginner'',
      workout_location = Some ''home'', workout_days_per_week = 3,
      medical_conditions = Some ''asthma'', allergies = Some ''peanuts''\<rparr>"

definition small_stats :: stats where
  "small_stats =
     \<lparr>bmi = 30, bmi_category = ''Obese'', bmr = 364, tdee = 437,
      daily_calories = 1200, s_protein_g = 105, s_carbs_g = 90,
      s_fats_g = 46, ideal_weight_min = 37 / 2,
      ideal_weight_max = 249 / 10, water_ml = 1050,
      s_macro_percentages = \<lparr>pct_protein = 35, pct_carbs = 30, pct_fats = 35\<rparr>\<rparr>"

text \<open>A profile whose calorie target is 1440 kcal, where the product
  \<open>1440 * 0.35\<close> is the double just below 504.\<close>

definition light_profile :: profile where
  "light_profile =
     \<lparr>name = Some ''Ravi'', age = 20, gender = Some ''male'', height_cm = 185, weight_kg = 35,
      fitness_goal = Some ''fat_loss'', activity_level = Some ''lightly_active'',
      dietary_preference = Some ''balanced'', experience_level = Some ''beginner'',
      workout_location = Some ''gym'', workout_days_per_week = 4,
      medical_conditions = None, allergies = None\<rparr>"

definition light_stats :: stats where
  "light_stats =
     \<lparr>bmi = 51 / 5, bmi_category = ''Underweight'', bmr = 1411, tdee = 1940,
      daily_calories = 1440, s_protein_g = 125, s_carbs_g = 108,
      s_fats_g = 55, ideal_weight_min = 633 / 10,
      ideal_weight_max = 426 / 5, water_ml = 1225,
      s_macro_percentages = \<lparr>pct_protein = 35, pct_carbs = 30, pct_fats = 35\<rparr>\<rparr>"

text \<open>The same profile without an experience level, and with the location that
  means no constraint.\<close>

definition home_profile :: profile where
  "home_profile = small_profile\<lparr>experience_level := None\<rparr>"

definition anywhere_profile :: profile where
  "anywhere_profile = small_profile\<lparr>experience_level := None, workout_location := Some ''both''\<rparr>"

text \<open>Three retrievers: one whose vector index is not configured, one whose index
  answers every query with no match, one whose index answers with a single match.\<close>

definition offline_retriever :: retriever where
  "offline_retriever =
     \<lparr>pinecone = \<lparr>initialized = False, pc = False, index_handle = None\<rparr>,
      embedding = \<lparr>embeddings = Some (\<lambda>text. Inr [0, 1])\<rparr>\<rparr>"

definition empty_index :: index where
  "empty_index v top_k namespace flt = Inr []"

definition empty_retriever :: retriever where
  "empty_retriever =
     \<lparr>pinecone = \<lparr>initialized = True, pc = True, index_handle = Some empty_index\<rparr>,
      embedding = \<lparr>embeddings = Some (\<lambda>text. Inr [0, 1])\<rparr>\<rparr>"





text \<open>A stand-in for the runtime's formatting, a chain whose backend fails at every
  call, and an ingester with a stand-in splitter and digest.\<close>

definition sample_format :: py_format where
  "sample_format =
     \<lparr>str_of = (\<lambda>v. case v of JStr s \<Rightarrow> s | JInt i \<Rightarrow> str_int i | _ \<Rightarrow> ''?''),
      fixed = (\<lambda>n x. str_int (py_int x))\<rparr>"



definition sample_ingester :: ingester where
  "sample_ingester =
     \<lparr>split_text = (\<lambda>s. [take 12 s, drop 12 s]),
      md5_hexdigest = (\<lambda>s. ''md5:'' @ s),
      ing_format = sample_format\<rparr>"

definition sample_data :: json where
  "sample_data =
     JList [JDict [(''name'', JStr ''Push Day''), (''level'', JStr ''beginner''),
                   (''exercises'', JList [JDict [(''name'', JStr ''Push-ups''), (''sets'', JInt 3),
                                               (''reps'', JInt 10)]])],
            JDict [(''title'', JStr ''Pull Day'')]]"

section \<open>The calculator\<close>

lemma calculate_all_small_profile: "calculate_all small_profile = Inr small_stats"
  by code_simp

lemma calculate_daily_calories_floor: "1200 \<le> calculate_daily_calories t g"
  by (simp add: calculate_daily_calories_def Let_def)

lemma calculate_all_daily_calories:
  "calculate_all p = Inr st \<Longrightarrow>
     daily_calories st =
       calculate_daily_calories
         (calculate_tdee (projr (calculate_bmr (weight_kg p) (height_cm p) (age p) (gender p)))
            (activity_level p))
         (fitness_goal p)"
  unfolding calculate_all_def Let_def
  by (auto split: sum.splits)

text \<open>
  C1.  The daily calorie target that \<open>calculate_daily_calories\<close> returns is at least
  1200 kcal for every TDEE and every goal string, known, unknown or missing; hence the
  \<open>daily_calories\<close> field of every result of \<open>calculate_all\<close> is at least 1200.
\<close>

theorem daily_calories_at_least_1200:
  "1200 \<le> calculate_daily_calories t g
   \<and> (calculate_all p = Inr st \<longrightarrow> 1200 \<le> daily_calories st)"
proof
  show "1200 \<le> calculate_daily_calories t g"
    by (rule calculate_daily_calories_floor)
next
  show "calculate_all p = Inr st \<longrightarrow> 1200 \<le> daily_calories st"
    by (auto dest!: calculate_all_daily_calories simp: calculate_daily_calories_floor)
qed

theorem daily_calories_at_least_1200_witness:
  "1200 \<le> calculate_daily_calories 437 (Some ''fat_loss'')
   \<and> calculate_all small_profile = Inr small_stats
   \<and> 1200 \<le> daily_calories small_stats"
  using daily_calories_at_least_1200 [of 437 "Some ''fat_loss''" small_profile small_stats]
    calculate_all_small_profile
  by simp

lemma calculate_tdee_unknown_activity:
  "ActivityLevel_of a = Inl e \<Longrightarrow> calculate_tdee b a = py_round (b * (155 / 100))"
  by (simp add: calculate_tdee_def)

lemma calculate_all_unknown_activity:
  "calculate_all (small_profile\<lparr>activity_level := Some ''lazy'', fitness_goal := Some ''lean''\<rparr>)
     = Inr \<lparr>bmi = 30, bmi_category = ''Obese'', bmr = 364, tdee = 564,
            daily_calories = 1200, s_protein_g = 90, s_carbs_g = 120,
            s_fats_g = 40, ideal_weight_min = 37 / 2,
            ideal_weight_max = 249 / 10, water_ml = 1050,
            s_macro_percentages = \<lparr>pct_protein = 30, pct_carbs = 40, pct_fats = 30\<rparr>\<rparr>"
  by code_simp

lemma unknown_goal_always_raises:
  "FitnessGoal_of (fitness_goal p) = Inl e \<Longrightarrow> calculate_all p \<noteq> Inr st"
  by (auto simp: calculate_all_def Let_def macro_percentage_def split: sum.splits)

text \<open>
  C2.  With every numeric field in its validated range and a fitness goal that is not a
  member of the enum, \<open>calculate_all\<close> raises ValueError: the enum constructor in the
  \<open>macro_percentages\<close> entry is called outside the \<open>try\<close> blocks that give the other
  lookups their defaults.
\<close>

theorem calculate_all_unknown_goal_raises:
  "calculate_all (small_profile\<lparr>fitness_goal := Some ''bulk''\<rparr>) = Inl ValueError"
  by code_simp

section \<open>Binary64 rounding and the macro split\<close>

lemma py_round_error: "\<bar>py_round y - y\<bar> \<le> 1 / 2"
proof -
  have "of_int \<lfloor>y\<rfloor> \<le> y" "y < of_int \<lfloor>y\<rfloor> + 1" by linarith+
  then show ?thesis
    by (auto simp: py_round_def Let_def)
qed

lemma py_round_ge:
  assumes "of_int k - 1 / 2 < y"
  shows "of_int k \<le> py_round y"
proof -
  have f: "of_int \<lfloor>y\<rfloor> \<le> y" "y < of_int \<lfloor>y\<rfloor> + 1" by linarith+
  have r: "y - 1 / 2 \<le> py_round y"
    using py_round_error [of y] by linarith
  have "py_round y \<in> \<int>"
    by (simp add: py_round_def Let_def)
  then obtain j where j: "py_round y = of_int j" by (rule Ints_cases)
  have "(of_int k :: rat) - 1 < of_int j"
    using assms r j by linarith
  then have "(of_int (k - 1) :: rat) < of_int j" by simp
  then have "k - 1 < j" by (simp only: of_int_less_iff)
  then have "k \<le> j" by simp
  then show ?thesis using j by simp
qed

lemma py_round_of_int: "py_round (of_int k) = of_int k"
  by (simp add: py_round_def Let_def)

lemma expo_bounds:
  assumes "0 < x"
  shows "2 powi expo x \<le> x" and "x < 2 powi (expo x + 1)"
proof -
  show "2 powi expo x \<le> x"
  proof (cases "1 \<le> x")
    case True
    define m where "m = \<lfloor>x\<rfloor>"
    have m: "0 < m" using True by (simp add: m_def)
    have b: "1 \<le> bitlen m" using m by (simp add: bitlen_alt_def)
    have "2 ^ nat (bitlen m - 1) \<le> m" using bitlen_bounds [OF m] ..
    then have "(of_int (2 ^ nat (bitlen m - 1)) :: rat) \<le> of_int m"
      by (simp only: of_int_le_iff)
    then have "(2 :: rat) ^ nat (bitlen m - 1) \<le> of_int m"
      by (simp only: of_int_power of_int_numeral)
    moreover have "of_int m \<le> x" by (simp add: m_def)
    ultimately have "(2 :: rat) ^ nat (bitlen m - 1) \<le> x" by linarith
    moreover have "expo x = bitlen m - 1" using True by (simp add: expo_def m_def)
    ultimately show ?thesis using b by (simp add: power_int_nonneg_exp)
  next
    case False
    define n where "n = \<lceil>1 / x\<rceil>"
    define k where "k = bitlen (n - 1)"
    have y: "1 < 1 / x" using False assms by simp
    have n: "0 < n - 1" using y by (simp add: n_def; linarith)
    have k: "expo x = - k" using False by (simp add: expo_def n_def k_def)
    have "n - 1 < 2 ^ nat k" using bitlen_bounds [OF n] by (simp add: k_def)
    then have "n \<le> 2 ^ nat k" by simp
    then have "(of_int n :: rat) \<le> of_int (2 ^ nat k)" by (simp only: of_int_le_iff)
    then have "(of_int n :: rat) \<le> 2 ^ nat k" by (simp only: of_int_power of_int_numeral)
    moreover have "1 / x \<le> of_int n" by (simp add: n_def)
    ultimately have "1 / x \<le> 2 ^ nat k" by linarith
    then have "1 / 2 ^ nat k \<le> x"
      using assms by (simp add: field_simps)
    moreover have "0 \<le> k" by (simp add: k_def bitlen_nonneg)
    ultimately show ?thesis
      by (simp add: k power_int_minus_divide power_int_nonneg_exp)
  qed
  show "x < 2 powi (expo x + 1)"
  proof (cases "1 \<le> x")
    case True
    define m where "m = \<lfloor>x\<rfloor>"
    have m: "0 < m" using True by (simp add: m_def)
    have b: "1 \<le> bitlen m" using m by (simp add: bitlen_alt_def)
    have "m < 2 ^ nat (bitlen m)" using bitlen_bounds [OF m] ..
    then have "m + 1 \<le> 2 ^ nat (bitlen m)" by simp
    then have "(of_int (m + 1) :: rat) \<le> of_int (2 ^ nat (bitlen m))"
      by (simp only: of_int_le_iff)
    then have "(of_int (m + 1) :: rat) \<le> 2 ^ nat (bitlen m)"
      by (simp only: of_int_power of_int_numeral)
    moreover have "x < of_int (m + 1)" by (simp add: m_def; linarith)
    ultimately have "x < 2 ^ nat (bitlen m)" by linarith
    moreover have "expo x + 1 = bitlen m" using True by (simp add: expo_def m_def)
    ultimately show ?thesis using b by (simp add: power_int_nonneg_exp)
  next
    case False
    define n where "n = \<lceil>1 / x\<rceil>"
    define k where "k = bitlen (n - 1)"
    have y: "1 < 1 / x" using False assms by simp
    have n: "0 < n - 1" using y by (simp add: n_def; linarith)
    have k: "expo x = - k" using False by (simp add: expo_def n_def k_def)
    have k1: "1 \<le> k" using n by (simp add: k_def bitlen_alt_def)
    have "2 ^ nat (k - 1) \<le> n - 1" using bitlen_bounds [OF n] by (simp add: k_def)
    then have "(of_int (2 ^ nat (k - 1)) :: rat) \<le> of_int (n - 1)"
      by (simp only: of_int_le_iff)
    then have "(2 :: rat) ^ nat (k - 1) \<le> of_int (n - 1)"
      by (simp only: of_int_power of_int_numeral)
    moreover have "of_int (n - 1) < 1 / x" by (simp add: n_def; linarith)
    ultimately have "2 ^ nat (k - 1) < 1 / x" by linarith
    then have "x < 1 / 2 ^ nat (k - 1)"
      using assms by (simp add: field_simps)
    moreover have "(2 :: rat) powi (- k + 1) = 1 / 2 ^ nat (k - 1)"
    proof -
      have "(2 :: rat) powi (- k + 1) = 2 powi (- (k - 1))" by simp
      also have "\<dots> = 1 / 2 powi (k - 1)" by (rule power_int_minus_divide)
      also have "\<dots> = 1 / 2 ^ nat (k - 1)" using k1 by (simp add: power_int_nonneg_exp)
      finally show ?thesis .
    qed
    ultimately show ?thesis by (simp add: k)
  qed
qed


lemma fl_zero: "fl 0 = 0"
  by (simp add: fl_def)

lemma fl_pos_unfold:
  "0 < x \<Longrightarrow> fl x = py_round (x / 2 powi (expo x - 52)) * 2 powi (expo x - 52)"
  by (simp add: fl_def Let_def)

lemma ulp_le:
  assumes "0 < x"
  shows "2 powi (expo x - 52) \<le> x / 2 ^ 52"
proof -
  have "(2 :: rat) powi (expo x - 52) = 2 powi expo x / 2 powi 52"
    by (rule power_int_diff) simp
  also have "\<dots> = 2 powi expo x / 2 ^ 52" by simp
  also have "\<dots> \<le> x / 2 ^ 52"
    using expo_bounds(1) [OF assms] by (simp add: divide_right_mono)
  finally show ?thesis .
qed

lemma fl_error:
  assumes "0 < x"
  shows "\<bar>fl x - x\<bar> \<le> x / 2 ^ 53"
proof -
  define u where "u = (2 :: rat) powi (expo x - 52)"
  have upos: "0 < u" by (simp add: u_def)
  have "fl x - x = (py_round (x / u) - x / u) * u"
    using assms upos by (simp add: fl_pos_unfold u_def algebra_simps)
  then have "\<bar>fl x - x\<bar> = \<bar>py_round (x / u) - x / u\<bar> * u"
    using upos by (simp add: abs_mult)
  also have "\<dots> \<le> (1 / 2) * u"
    using py_round_error [of "x / u"] upos by (simp add: mult_right_mono)
  also have "\<dots> \<le> (1 / 2) * (x / 2 ^ 52)"
    using ulp_le [OF assms] by (simp add: u_def)
  also have "\<dots> = x / 2 ^ 53" by simp
  finally show ?thesis .
qed

lemma fl_nonneg:
  assumes "0 \<le> x"
  shows "0 \<le> fl x"
proof (cases "x = 0")
  case True
  then show ?thesis by (simp add: fl_zero)
next
  case False
  then have x: "0 < x" using assms by simp
  define u where "u = (2 :: rat) powi (expo x - 52)"
  have upos: "0 < u" by (simp add: u_def)
  have "0 < x / u" using x upos by (rule divide_pos_pos)
  then have "of_int 0 - 1 / 2 < x / u" by simp
  then have "of_int 0 \<le> py_round (x / u)" by (rule py_round_ge)
  then show ?thesis using upos x by (simp add: fl_pos_unfold u_def)
qed

lemma expo_small:
  assumes "0 < x" and "x < 2 ^ 52"
  shows "expo x < 52"
proof (rule ccontr)
  assume "\<not> expo x < 52"
  then have "52 \<le> expo x" by simp
  then have "(2 :: rat) powi 52 \<le> 2 powi expo x"
    by (intro power_int_increasing) simp_all
  then have "(2 :: rat) ^ 52 \<le> x"
    using expo_bounds(1) [OF assms(1)] by simp
  then show False using assms(2) by simp
qed

lemma ulp_small:
  assumes "0 < x" and "x < 2 ^ 52"
  shows "(2 :: rat) powi (expo x - 52) = 1 / of_int (2 ^ nat (52 - expo x))"
proof -
  have e: "expo x < 52" using assms by (rule expo_small)
  have "(2 :: rat) powi (expo x - 52) = 2 powi (- (52 - expo x))" by simp
  also have "\<dots> = 1 / 2 powi (52 - expo x)" by (rule power_int_minus_divide)
  also have "\<dots> = 1 / 2 ^ nat (52 - expo x)" using e by (simp add: power_int_nonneg_exp)
  finally show ?thesis by simp
qed

lemma fl_snap:
  assumes "0 < x" and "x < 2 ^ 52" and "of_int n - x < x / 2 ^ 54"
  shows "of_int n \<le> fl x"
proof -
  define u where "u = (2 :: rat) powi (expo x - 52)"
  define K where "K = (2 :: int) ^ nat (52 - expo x)"
  have upos: "0 < u" by (simp add: u_def)
  have uK: "u = 1 / of_int K" using ulp_small [OF assms(1,2)] by (simp add: u_def K_def)
  have Kpos: "(0 :: rat) < of_int K" by (simp add: K_def)
  have "(2 :: rat) powi (expo x + 1) = 2 powi ((expo x - 52) + 53)"
    by (rule arg_cong [where f = "power_int 2"]) simp
  also have "\<dots> = 2 powi (expo x - 52) * 2 powi 53"
    by (rule power_int_add) simp
  also have "\<dots> = u * 2 ^ 53"
    by (simp add: u_def)
  finally have "(2 :: rat) powi (expo x + 1) = u * 2 ^ 53" .
  then have "x < u * 2 ^ 53"
    using expo_bounds(2) [OF assms(1)] by simp
  then have "x / 2 ^ 54 < u / 2" by simp
  then have "of_int n - x < u / 2" using assms(3) by linarith
  then have "(of_int n - x) * of_int K < (u / 2) * of_int K"
    using Kpos by (simp only: mult_strict_right_mono)
  then have "of_int n * of_int K - x * of_int K < 1 / 2"
    using Kpos by (simp add: uK algebra_simps)
  then have "of_int (n * K) - 1 / 2 < x / u"
    using Kpos by (simp add: uK)
  then have "of_int (n * K) \<le> py_round (x / u)" by (rule py_round_ge)
  then have "of_int (n * K) * u \<le> py_round (x / u) * u"
    using upos by (simp only: mult_right_mono less_imp_le)
  then show ?thesis
    using assms(1) Kpos by (simp add: fl_pos_unfold flip: u_def) (simp add: uK)
qed

lemma fl_of_int:
  assumes "0 \<le> n" and "n < 2 ^ 52"
  shows "fl (of_int n) = of_int n"
proof (cases "n = 0")
  case True
  then show ?thesis by (simp add: fl_zero)
next
  case False
  define x :: rat where "x = of_int n"
  have x: "0 < x" using False assms(1) by (simp add: x_def)
  have x52: "x < 2 ^ 52"
  proof -
    have "(of_int n :: rat) < of_int (2 ^ 52)" using assms(2) by (simp only: of_int_less_iff)
    then show ?thesis by (simp add: x_def)
  qed
  define K where "K = (2 :: int) ^ nat (52 - expo x)"
  have uK: "(2 :: rat) powi (expo x - 52) = 1 / of_int K"
    using ulp_small [OF x x52] by (simp add: K_def)
  have Kpos: "(0 :: rat) < of_int K" by (simp add: K_def)
  have "x / (1 / of_int K) = of_int (n * K)" by (simp add: x_def)
  then have "py_round (x / (1 / of_int K)) = of_int (n * K)"
    by (simp only: py_round_of_int)
  then have "fl x = of_int (n * K) * (1 / of_int K)"
    using x by (simp only: fl_pos_unfold uK)
  then show ?thesis using Kpos by (simp add: x_def)
qed

lemma py_int_nonneg: "0 \<le> x \<Longrightarrow> py_int x = \<lfloor>x\<rfloor>"
  by (simp add: py_int_def)

lemma abs_boundD: "\<bar>a - b\<bar> \<le> e \<Longrightarrow> a \<le> b + e \<and> b \<le> a + (e :: rat)"
  by linarith

lemma grams_bounds:
  fixes D rh r k :: rat
  assumes D: "0 \<le> D" "D \<le> 2 ^ 32"
    and rh: "0 < rh" "rh \<le> 1" "\<bar>rh - r\<bar> \<le> 1 / 2 ^ 54"
    and k: "1 \<le> k" "k \<le> 9"
  shows "0 \<le> fl (fl (D * rh) / k)"
    and "\<bar>k * fl (fl (D * rh) / k) - D * r\<bar> \<le> 1 / 2 ^ 17"
proof -
  define x where "x = D * rh"
  define p where "p = fl x"
  define y where "y = p / k"
  define q where "q = fl y"
  have x0: "0 \<le> x" using D(1) rh(1) by (simp add: x_def)
  have p0: "0 \<le> p" unfolding p_def using x0 by (rule fl_nonneg)
  have y0: "0 \<le> y" using p0 k(1) by (simp add: y_def)
  show "0 \<le> fl (fl (D * rh) / k)"
    using fl_nonneg [OF y0] by (simp add: y_def p_def x_def)
  have xD: "x \<le> D"
    using D(1) rh(2) by (simp add: x_def mult_left_le)
  have xr: "\<bar>x - D * r\<bar> \<le> 1 / 2 ^ 22"
  proof -
    have "x - D * r = D * (rh - r)" by (simp add: x_def algebra_simps)
    then have "\<bar>x - D * r\<bar> = D * \<bar>rh - r\<bar>" using D(1) by (simp add: abs_mult)
    also have "\<dots> \<le> 2 ^ 32 * (1 / 2 ^ 54)"
      using D rh(3) by (intro mult_mono) simp_all
    also have "\<dots> = 1 / 2 ^ 22" by simp
    finally show ?thesis .
  qed
  have px: "\<bar>p - x\<bar> \<le> 1 / 2 ^ 21"
  proof (cases "x = 0")
    case True
    then show ?thesis by (simp add: p_def fl_zero)
  next
    case False
    then have "0 < x" using x0 by simp
    then have "\<bar>p - x\<bar> \<le> x / 2 ^ 53" unfolding p_def by (rule fl_error)
    also have "\<dots> \<le> 2 ^ 32 / 2 ^ 53" using xD D(2) by (simp add: divide_right_mono)
    also have "\<dots> = 1 / 2 ^ 21" by simp
    finally show ?thesis .
  qed
  have p33: "p \<le> 2 ^ 33" using abs_boundD [OF px] xD D(2) by (simp; linarith)
  have kq: "\<bar>k * q - p\<bar> \<le> 1 / 2 ^ 20"
  proof (cases "y = 0")
    case True
    then have "p = 0" using k(1) by (simp add: y_def)
    then show ?thesis using True by (simp add: q_def fl_zero)
  next
    case False
    then have "0 < y" using y0 by simp
    then have "\<bar>q - y\<bar> \<le> y / 2 ^ 53" unfolding q_def by (rule fl_error)
    then have "k * \<bar>q - y\<bar> \<le> k * (y / 2 ^ 53)"
      using k(1) by (intro mult_left_mono) simp_all
    moreover have "k * \<bar>q - y\<bar> = \<bar>k * q - p\<bar>"
    proof -
      have "k * q - p = k * (q - y)" using k(1) by (simp add: y_def algebra_simps)
      then show ?thesis using k(1) by (simp add: abs_mult)
    qed
    moreover have "k * (y / 2 ^ 53) = p / 2 ^ 53" using k(1) by (simp add: y_def)
    ultimately have "\<bar>k * q - p\<bar> \<le> p / 2 ^ 53" by simp
    also have "\<dots> \<le> 2 ^ 33 / 2 ^ 53" using p33 by (simp add: divide_right_mono)
    also have "\<dots> = 1 / 2 ^ 20" by simp
    finally show ?thesis .
  qed
  have "k * q \<le> D * r + 1 / 2 ^ 17 \<and> D * r \<le> k * q + 1 / 2 ^ 17"
    using abs_boundD [OF kq] abs_boundD [OF px] abs_boundD [OF xr] by (simp; linarith)
  then have "\<bar>k * q - D * r\<bar> \<le> 1 / 2 ^ 17" by linarith
  then show "\<bar>k * fl (fl (D * rh) / k) - D * r\<bar> \<le> 1 / 2 ^ 17"
    by (simp only: q_def y_def p_def x_def)
qed

lemma grams_snap:
  fixes D rh r :: rat
  assumes D: "0 < D" "D \<le> 2 ^ 32"
    and rh: "0 < rh" "rh \<le> 1" "r - rh < rh / 2 ^ 54"
    and j: "of_int j * 4 = D * r"
  shows "of_int j \<le> fl (fl (D * rh) / 4)"
proof -
  define x where "x = D * rh"
  define p where "p = fl x"
  have x0: "0 < x" using D(1) rh(1) by (simp add: x_def)
  have xD: "x \<le> D" using D(1) rh(2) by (simp add: x_def mult_left_le)
  have x52: "x < 2 ^ 52" using xD D(2) by simp
  have "D * (r - rh) < D * (rh / 2 ^ 54)"
    using D(1) rh(3) by (simp only: mult_strict_left_mono)
  then have "of_int (4 * j) - x < x / 2 ^ 54"
    using j by (simp add: x_def algebra_simps)
  then have p4: "of_int (4 * j) \<le> p"
    unfolding p_def using x0 x52 by (intro fl_snap)
  show ?thesis
  proof (cases "0 < j")
    case False
    then have "(of_int j :: rat) \<le> 0" by simp
    moreover have "0 \<le> fl (fl (D * rh) / 4)"
      using D(1) rh(1) by (intro fl_nonneg divide_nonneg_pos) simp_all
    ultimately show ?thesis by linarith
  next
    case True
    have px: "\<bar>p - x\<bar> \<le> x / 2 ^ 53" unfolding p_def using x0 by (rule fl_error)
    have "x / 2 ^ 53 \<le> x" using x0 by (simp add: field_simps)
    then have "p \<le> 2 * x" using abs_boundD [OF px] by linarith
    then have p52: "p / 4 < 2 ^ 52" using xD D(2) by simp
    have pj: "of_int j \<le> p / 4" using p4 by simp
    then have ppos: "0 < p / 4" using True
      by (meson less_le_trans of_int_0_less_iff)
    have "of_int j - p / 4 < (p / 4) / 2 ^ 54"
      using pj ppos by (simp add: field_simps) 
    then have "of_int j \<le> fl (p / 4)"
      using ppos p52 by (intro fl_snap)
    then show ?thesis by (simp add: p_def x_def)
  qed
qed

lemma macros_energy:
  fixes dc :: int and rp rc rf ph ch fh :: rat
  assumes dc: "0 \<le> dc" "dc \<le> 2 ^ 32"
    and sum: "rp + rc + rf = 1"
    and ph: "0 < ph" "ph \<le> 1" "\<bar>ph - rp\<bar> \<le> 1 / 2 ^ 54"
    and ch: "0 < ch" "ch \<le> 1" "\<bar>ch - rc\<bar> \<le> 1 / 2 ^ 54" "rc - ch < ch / 2 ^ 54"
    and fh: "0 < fh" "fh \<le> 1" "\<bar>fh - rf\<bar> \<le> 1 / 2 ^ 54"
    and m: "of_int m = 20 * rc"
    and P: "P = py_int (fl (fl (of_int dc * ph) / 4))"
    and C: "C = py_int (fl (fl (of_int dc * ch) / 4))"
    and F: "F = py_int (fl (fl (of_int dc * fh) / 9))"
  shows "4 * P + 4 * C + 9 * F \<le> dc" and "dc - (4 * P + 4 * C + 9 * F) < 17"
proof -
  define D :: rat where "D = of_int dc"
  define qp where "qp = fl (fl (D * ph) / 4)"
  define qc where "qc = fl (fl (D * ch) / 4)"
  define qf where "qf = fl (fl (D * fh) / 9)"
  have D: "0 \<le> D" "D \<le> 2 ^ 32"
  proof -
    show "0 \<le> D" using dc(1) by (simp add: D_def)
    have "(of_int dc :: rat) \<le> of_int (2 ^ 32)" using dc(2) by (simp only: of_int_le_iff)
    then show "D \<le> 2 ^ 32" by (simp add: D_def)
  qed
  have bp: "0 \<le> qp" "\<bar>4 * qp - D * rp\<bar> \<le> 1 / 2 ^ 17"
    unfolding qp_def using grams_bounds [OF D ph, of 4] by simp_all
  have bc: "0 \<le> qc" "\<bar>4 * qc - D * rc\<bar> \<le> 1 / 2 ^ 17"
    unfolding qc_def using grams_bounds [OF D ch(1-3), of 4] by simp_all
  have bf: "0 \<le> qf" "\<bar>9 * qf - D * rf\<bar> \<le> 1 / 2 ^ 17"
    unfolding qf_def using grams_bounds [OF D fh, of 9] by simp_all
  have Pq: "P = \<lfloor>qp\<rfloor>" using bp(1) by (simp add: P qp_def D_def py_int_nonneg)
  have Cq: "C = \<lfloor>qc\<rfloor>" using bc(1) by (simp add: C qc_def D_def py_int_nonneg)
  have Fq: "F = \<lfloor>qf\<rfloor>" using bf(1) by (simp add: F qf_def D_def py_int_nonneg)
  have fP: "of_int P \<le> qp" "qp < of_int P + 1" unfolding Pq by linarith+
  have fC: "of_int C \<le> qc" "qc < of_int C + 1" unfolding Cq by linarith+
  have fF: "of_int F \<le> qf" "qf < of_int F + 1" unfolding Fq by linarith+
  have Dsum: "D * rp + D * rc + D * rf = D"
    using sum by (simp flip: distrib_left)
  have "4 * of_int P + 4 * of_int C + 9 * of_int F < D + 1"
    using fP(1) fC(1) fF(1) abs_boundD [OF bp(2)] abs_boundD [OF bc(2)] abs_boundD [OF bf(2)]
      Dsum
    by (simp; linarith)
  then have "(of_int (4 * P + 4 * C + 9 * F) :: rat) < of_int (dc + 1)"
    by (simp add: D_def)
  then have "4 * P + 4 * C + 9 * F < dc + 1" by (simp only: of_int_less_iff)
  then show "4 * P + 4 * C + 9 * F \<le> dc" by simp
  have mdc: "(of_int (m * dc) :: rat) = 20 * (D * rc)"
    using m by (simp add: D_def)
  have "20 * (D * rc) - 1 < 80 * (of_int C + 1)"
    using fC(2) abs_boundD [OF bc(2)] by (simp; linarith)
  then have "(of_int (m * dc - 1) :: rat) < of_int (80 * (C + 1))"
    using mdc by simp
  then have "m * dc - 1 < 80 * (C + 1)" by (simp only: of_int_less_iff)
  then have ge: "m * dc \<le> 80 * (C + 1)" by simp
  have ne: "m * dc \<noteq> 80 * (C + 1)"
  proof
    assume eq: "m * dc = 80 * (C + 1)"
    have "(of_int (m * dc) :: rat) = of_int (80 * (C + 1))" using eq by simp
    then have j: "of_int (C + 1) * 4 = D * rc" using mdc by simp
    have C0: "0 \<le> C" unfolding Cq using bc(1) by simp
    have "dc \<noteq> 0" using eq C0 by auto
    then have Dpos: "0 < D" using dc(1) by (simp add: D_def)
    have "of_int (C + 1) \<le> qc"
      unfolding qc_def using Dpos D(2) ch(1,2,4) j by (rule grams_snap)
    then have "C + 1 \<le> \<lfloor>qc\<rfloor>" by (simp only: le_floor_iff)
    then show False using Cq by simp
  qed
  have "m * dc + 1 \<le> 80 * (C + 1)" using ge ne by simp
  then have "(of_int (m * dc + 1) :: rat) \<le> of_int (80 * (C + 1))"
    by (simp only: of_int_le_iff)
  then have carbs: "20 * (D * rc) + 1 \<le> 80 * (of_int C + 1)"
    using mdc by simp
  have "D < 4 * of_int P + 4 * of_int C + 9 * of_int F + 17"
    using fP(2) fF(2) abs_boundD [OF bp(2)] abs_boundD [OF bf(2)] carbs Dsum
    by (simp; linarith)
  then have "(of_int dc :: rat) < of_int (4 * P + 4 * C + 9 * F + 17)"
    by (simp add: D_def)
  then have "dc < 4 * P + 4 * C + 9 * F + 17" by (simp only: of_int_less_iff)
  then show "dc - (4 * P + 4 * C + 9 * F) < 17" by simp
qed

lemma double_literals:
  "fl (30 / 100) = 5404319552844595 / 18014398509481984"
  "fl (40 / 100) = 3602879701896397 / 9007199254740992"
  "fl (45 / 100) = 8106479329266893 / 18014398509481984"
  "fl (25 / 100) = 1 / 4"
  "fl (35 / 100) = 3152519739159347 / 9007199254740992"
  by code_simp+

lemma float_of_int_small:
  assumes "0 \<le> dc" and "dc \<le> 2 ^ 32"
  shows "float_of_int dc = Inr (of_int dc)"
proof (cases "dc = 0")
  case True
  then show ?thesis by (simp add: float_of_int_def fl_zero)
next
  case False
  have lt: "dc < 2 ^ 52" using assms(2) by simp
  have d: "fl (of_int dc) = of_int dc" using assms(1) lt by (rule fl_of_int)
  have pos: "(0 :: rat) < of_int dc" using False assms(1) by simp
  have "(of_int dc :: rat) < of_int (2 ^ 52)" using lt by (simp only: of_int_less_iff)
  then have "(of_int dc :: rat) < 2 ^ 52" by simp
  then have "expo (of_int dc) < 52" using pos by (intro expo_small)
  then show ?thesis using pos by (simp add: float_of_int_def d)
qed

lemma calculate_macros_small:
  assumes "0 \<le> dc" and "dc \<le> 2 ^ 32"
  shows "calculate_macros dc g =
           Inr \<lparr>protein_g = py_int (fl (fl (of_int dc * protein (goal_ratios g)) / 4)),
                carbs_g = py_int (fl (fl (of_int dc * carbs (goal_ratios g)) / 4)),
                fats_g = py_int (fl (fl (of_int dc * fats (goal_ratios g)) / 9))\<rparr>"
  by (simp add: calculate_macros_def goal_ratios_def Let_def float_of_int_small [OF assms])

lemma goal_ratios_cases:
  "goal_ratios g = \<lparr>protein = 5404319552844595 / 18014398509481984,
                     carbs = 3602879701896397 / 9007199254740992,
                     fats = 5404319552844595 / 18014398509481984\<rparr>
   \<or> goal_ratios g = \<lparr>protein = 5404319552844595 / 18014398509481984,
                        carbs = 8106479329266893 / 18014398509481984,
                        fats = 1 / 4\<rparr>
   \<or> goal_ratios g = \<lparr>protein = 3152519739159347 / 9007199254740992,
                        carbs = 5404319552844595 / 18014398509481984,
                        fats = 3152519739159347 / 9007199254740992\<rparr>"
  using double_literals
  by (simp add: goal_ratios_def FitnessGoal_of_def MACRO_RATIOS_LEAN_def)

lemma calculate_macros_in_range:
  assumes "0 \<le> dc" and "dc \<le> 2 ^ 32"
  shows "\<exists>m. calculate_macros dc g = Inr m
             \<and> 4 * protein_g m + 4 * carbs_g m + 9 * fats_g m \<le> dc
             \<and> dc - (4 * protein_g m + 4 * carbs_g m + 9 * fats_g m) < 17"
proof -
  define P where "P = py_int (fl (fl (of_int dc * protein (goal_ratios g)) / 4))"
  define C where "C = py_int (fl (fl (of_int dc * carbs (goal_ratios g)) / 4))"
  define F where "F = py_int (fl (fl (of_int dc * fats (goal_ratios g)) / 9))"
  have m: "calculate_macros dc g = Inr \<lparr>protein_g = P, carbs_g = C, fats_g = F\<rparr>"
    using calculate_macros_small [OF assms] by (simp add: P_def C_def F_def)
  consider
    (lean) "goal_ratios g = \<lparr>protein = 5404319552844595 / 18014398509481984,
                             carbs = 3602879701896397 / 9007199254740992,
                             fats = 5404319552844595 / 18014398509481984\<rparr>"
  | (gain) "goal_ratios g = \<lparr>protein = 5404319552844595 / 18014398509481984,
                             carbs = 8106479329266893 / 18014398509481984,
                             fats = 1 / 4\<rparr>"
  | (loss) "goal_ratios g = \<lparr>protein = 3152519739159347 / 9007199254740992,
                             carbs = 5404319552844595 / 18014398509481984,
                             fats = 3152519739159347 / 9007199254740992\<rparr>"
    using goal_ratios_cases by blast
  then have "4 * P + 4 * C + 9 * F \<le> dc \<and> dc - (4 * P + 4 * C + 9 * F) < 17"
  proof cases
    case lean
    have "4 * P + 4 * C + 9 * F \<le> dc"
      by (rule macros_energy(1) [where rp = "3 / 10" and rc = "4 / 10" and rf = "3 / 10" and m = 8
            and ph = "protein (goal_ratios g)" and ch = "carbs (goal_ratios g)"
            and fh = "fats (goal_ratios g)" and P = P and C = C and F = F, OF assms];
          simp add: P_def C_def F_def lean)
    moreover have "dc - (4 * P + 4 * C + 9 * F) < 17"
      by (rule macros_energy(2) [where rp = "3 / 10" and rc = "4 / 10" and rf = "3 / 10" and m = 8
            and ph = "protein (goal_ratios g)" and ch = "carbs (goal_ratios g)"
            and fh = "fats (goal_ratios g)" and P = P and C = C and F = F, OF assms];
          simp add: P_def C_def F_def lean)
    ultimately show ?thesis by simp
  next
    case gain
    have "4 * P + 4 * C + 9 * F \<le> dc"
      by (rule macros_energy(1) [where rp = "3 / 10" and rc = "45 / 100" and rf = "25 / 100" and m = 9
            and ph = "protein (goal_ratios g)" and ch = "carbs (goal_ratios g)"
            and fh = "fats (goal_ratios g)" and P = P and C = C and F = F, OF assms];
          simp add: P_def C_def F_def gain)
    moreover have "dc - (4 * P + 4 * C + 9 * F) < 17"
      by (rule macros_energy(2) [where rp = "3 / 10" and rc = "45 / 100" and rf = "25 / 100" and m = 9
            and ph = "protein (goal_ratios g)" and ch = "carbs (goal_ratios g)"
            and fh = "fats (goal_ratios g)" and P = P and C = C and F = F, OF assms];
          simp add: P_def C_def F_def gain)
    ultimately show ?thesis by simp
  next
    case loss
    have "4 * P + 4 * C + 9 * F \<le> dc"
      by (rule macros_energy(1) [where rp = "35 / 100" and rc = "3 / 10" and rf = "35 / 100" and m = 6
            and ph = "protein (goal_ratios g)" and ch = "carbs (goal_ratios g)"
            and fh = "fats (goal_ratios g)" and P = P and C = C and F = F, OF assms];
          simp add: P_def C_def F_def loss)
    moreover have "dc - (4 * P + 4 * C + 9 * F) < 17"
      by (rule macros_energy(2) [where rp = "35 / 100" and rc = "3 / 10" and rf = "35 / 100" and m = 6
            and ph = "protein (goal_ratios g)" and ch = "carbs (goal_ratios g)"
            and fh = "fats (goal_ratios g)" and P = P and C = C and F = F, OF assms];
          simp add: P_def C_def F_def loss)
    ultimately show ?thesis by simp
  qed
  then show ?thesis using m by simp
qed

lemma py_round_bounds: "x - 1 / 2 \<le> py_round x \<and> py_round x \<le> x + 1 / 2"
  using py_round_error [of x] by linarith

lemma py_int_le: "of_int (py_int x) \<le> max x 0"
proof (cases "0 \<le> x")
  case True
  then show ?thesis by (simp add: py_int_def max_def)
next
  case False
  then have "\<lceil>x\<rceil> \<le> 0" by (simp add: ceiling_le_iff)
  then have "(of_int \<lceil>x\<rceil> :: rat) \<le> of_int 0" by (simp only: of_int_le_iff)
  then show ?thesis using False by (simp add: py_int_def max_def)
qed

lemma calculate_bmr_range:
  assumes "valid_profile p"
    and "calculate_bmr (weight_kg p) (height_cm p) (age p) (gender p) = Inr b"
  shows "0 \<le> b \<and> b \<le> 4488"
proof -
  have a: "(16 :: rat) \<le> of_int (age p)" "(of_int (age p) :: rat) \<le> 80"
  proof -
    have "(of_int 16 :: rat) \<le> of_int (age p)"
      using assms(1) by (simp only: of_int_le_iff valid_profile_def)
    then show "(16 :: rat) \<le> of_int (age p)" by simp
    have "(of_int (age p) :: rat) \<le> of_int 80"
      using assms(1) by (simp only: of_int_le_iff valid_profile_def)
    then show "(of_int (age p) :: rat) \<le> 80" by simp
  qed
  have r: "100 \<le> height_cm p" "height_cm p \<le> 250" "30 \<le> weight_kg p" "weight_kg p \<le> 300"
    using assms(1) by (simp_all add: valid_profile_def)
  obtain s where s: "gender p = Some s"
    using assms(2) by (cases "gender p") (simp_all add: calculate_bmr_def)
  define x where
    "x = (if lower s = ''male''
          then 10 * weight_kg p + (625 / 100) * height_cm p - 5 * of_int (age p) + 5
          else 10 * weight_kg p + (625 / 100) * height_cm p - 5 * of_int (age p) - 161)"
  have b: "b = py_round x"
    using assms(2) by (simp add: calculate_bmr_def s x_def)
  have "364 \<le> x \<and> x \<le> 4487 + 1 / 2"
    using a r by (simp add: x_def; linarith)
  then show ?thesis
    using py_round_bounds [of x] by (simp add: b; linarith)
qed

lemma calculate_tdee_range:
  assumes "0 \<le> b" and "b \<le> 4488"
  shows "calculate_tdee b act \<le> 8528"
proof -
  define mult where
    "mult = (case ActivityLevel_of act of
               Inr activity \<Rightarrow>
                 (case ACTIVITY_MULTIPLIERS activity of Some m \<Rightarrow> m | None \<Rightarrow> 155 / 100)
             | Inl _ \<Rightarrow> 155 / 100)"
  have m: "0 \<le> mult \<and> mult \<le> 19 / 10"
  proof (cases "ActivityLevel_of act")
    case (Inl e)
    then show ?thesis by (simp add: mult_def)
  next
    case (Inr activity)
    then show ?thesis by (cases activity) (simp_all add: mult_def)
  qed
  have "b * mult \<le> 4488 * (19 / 10)"
    using assms m by (intro mult_mono) simp_all
  then have "py_round (b * mult) \<le> 8528"
    using py_round_bounds [of "b * mult"] by (simp; linarith)
  then show ?thesis by (simp add: calculate_tdee_def mult_def)
qed

lemma calculate_daily_calories_range:
  assumes "t \<le> 8528"
  shows "calculate_daily_calories t g \<le> 8828"
proof -
  define adj where
    "adj = (case FitnessGoal_of g of
              Inr goal \<Rightarrow> (case GOAL_ADJUSTMENTS goal of Some a \<Rightarrow> a | None \<Rightarrow> 0)
            | Inl _ \<Rightarrow> (0 :: rat))"
  have a: "adj \<le> 300"
  proof (cases "FitnessGoal_of g")
    case (Inl e)
    then show ?thesis by (simp add: adj_def)
  next
    case (Inr goal)
    then show ?thesis by (cases goal) (simp_all add: adj_def)
  qed
  have "(of_int (py_int (t + adj)) :: rat) \<le> of_int 8828"
    using py_int_le [of "t + adj"] assms a by (simp add: max_def split: if_splits; linarith)
  then have "py_int (t + adj) \<le> 8828" by (simp only: of_int_le_iff)
  then show ?thesis by (simp add: calculate_daily_calories_def adj_def Let_def)
qed

lemma calculate_all_fields:
  assumes "calculate_all p = Inr st"
  shows "\<exists>b. calculate_bmr (weight_kg p) (height_cm p) (age p) (gender p) = Inr b
             \<and> daily_calories st
                 = calculate_daily_calories (calculate_tdee b (activity_level p))
                     (fitness_goal p)"
    and "calculate_macros (daily_calories st) (fitness_goal p) =
           Inr \<lparr>protein_g = s_protein_g st, carbs_g = s_carbs_g st, fats_g = s_fats_g st\<rparr>"
  using assms unfolding calculate_all_def Let_def
  by (auto split: sum.splits)

lemma valid_profile_daily_calories:
  assumes "valid_profile p" and "calculate_all p = Inr st"
  shows "0 \<le> daily_calories st \<and> daily_calories st \<le> 2 ^ 32"
proof -
  obtain b where b: "calculate_bmr (weight_kg p) (height_cm p) (age p) (gender p) = Inr b"
    and dc: "daily_calories st
               = calculate_daily_calories (calculate_tdee b (activity_level p)) (fitness_goal p)"
    using calculate_all_fields(1) [OF assms(2)] by blast
  have "0 \<le> b \<and> b \<le> 4488" using assms(1) b by (rule calculate_bmr_range)
  then have "calculate_tdee b (activity_level p) \<le> 8528" by (simp add: calculate_tdee_range)
  then have "daily_calories st \<le> 8828" unfolding dc by (rule calculate_daily_calories_range)
  moreover have "1200 \<le> daily_calories st" unfolding dc by (rule calculate_daily_calories_floor)
  ultimately show ?thesis by simp
qed

lemma calculate_macros_1440:
  "calculate_macros 1440 (Some ''fat_loss'') = Inr \<lparr>protein_g = 125, carbs_g = 108, fats_g = 55\<rparr>"
  by code_simp

lemma calculate_all_light_profile: "calculate_all light_profile = Inr light_stats"
  by code_simp

lemma valid_light_profile: "valid_profile light_profile"
  by (simp add: valid_profile_def light_profile_def)

text \<open>
  C6.  The values of \<open>daily_calories\<close> that reach \<open>calculate_macros\<close> come from
  \<open>calculate_daily_calories\<close>: at least 1200, and at most 8828 for a profile in the
  validated ranges.  For every such profile and every goal string, and more generally
  for every \<open>daily_calories\<close> from 0 to \<open>2\<^sup>3\<^sup>2\<close>, the grams that \<open>calculate_macros\<close>
  returns, protein and carbs at 4 kcal/g and fats at 9 kcal/g, carry at most
  \<open>daily_calories\<close> and fall short of it by less than \<open>4 + 4 + 9 = 17\<close> kcal.  The
  arithmetic is the code's binary64: at 1440 kcal and goal \<open>fat_loss\<close> the grams are
  125, 108 and 55.
\<close>

theorem macro_energy_within_rounding:
  "(0 \<le> dc \<and> dc \<le> 2 ^ 32 \<longrightarrow>
      (\<exists>m. calculate_macros dc g = Inr m
           \<and> 4 * protein_g m + 4 * carbs_g m + 9 * fats_g m \<le> dc
           \<and> dc - (4 * protein_g m + 4 * carbs_g m + 9 * fats_g m) < 17))
   \<and> (valid_profile p \<and> calculate_all p = Inr st \<longrightarrow>
        4 * s_protein_g st + 4 * s_carbs_g st + 9 * s_fats_g st \<le> daily_calories st
        \<and> daily_calories st - (4 * s_protein_g st + 4 * s_carbs_g st + 9 * s_fats_g st) < 17)"
proof (intro conjI impI)
  assume "0 \<le> dc \<and> dc \<le> 2 ^ 32"
  then show "\<exists>m. calculate_macros dc g = Inr m
           \<and> 4 * protein_g m + 4 * carbs_g m + 9 * fats_g m \<le> dc
           \<and> dc - (4 * protein_g m + 4 * carbs_g m + 9 * fats_g m) < 17"
    by (simp add: calculate_macros_in_range)
next
  assume a: "valid_profile p \<and> calculate_all p = Inr st"
  then have r: "0 \<le> daily_calories st" "daily_calories st \<le> 2 ^ 32"
    using valid_profile_daily_calories [of p st] by simp_all
  obtain m where m: "calculate_macros (daily_calories st) (fitness_goal p) = Inr m"
    and e: "4 * protein_g m + 4 * carbs_g m + 9 * fats_g m \<le> daily_calories st"
      "daily_calories st - (4 * protein_g m + 4 * carbs_g m + 9 * fats_g m) < 17"
    using calculate_macros_in_range [OF r, of "fitness_goal p"] by blast
  have "m = \<lparr>protein_g = s_protein_g st, carbs_g = s_carbs_g st, fats_g = s_fats_g st\<rparr>"
    using m calculate_all_fields(2) [of p st] a by simp
  then have f: "protein_g m = s_protein_g st" "carbs_g m = s_carbs_g st"
    "fats_g m = s_fats_g st"
    by simp_all
  show "4 * s_protein_g st + 4 * s_carbs_g st + 9 * s_fats_g st \<le> daily_calories st"
    using e(1) by (simp only: f)
  show "daily_calories st - (4 * s_protein_g st + 4 * s_carbs_g st + 9 * s_fats_g st) < 17"
    using e(2) by (simp only: f)
qed

theorem macro_energy_within_rounding_witness:
  "(0 :: int) \<le> 1440 \<and> (1440 :: int) \<le> 2 ^ 32
   \<and> calculate_macros 1440 (Some ''fat_loss'')
       = Inr \<lparr>protein_g = 125, carbs_g = 108, fats_g = 55\<rparr>
   \<and> 4 * 125 + 4 * 108 + 9 * 55 \<le> (1440 :: int)
   \<and> (1440 :: int) - (4 * 125 + 4 * 108 + 9 * 55) < 17
   \<and> valid_profile light_profile
   \<and> calculate_all light_profile = Inr light_stats
   \<and> 4 * s_protein_g light_stats + 4 * s_carbs_g light_stats + 9 * s_fats_g light_stats
       \<le> daily_calories light_stats
   \<and> daily_calories light_stats
       - (4 * s_protein_g light_stats + 4 * s_carbs_g light_stats + 9 * s_fats_g light_stats)
       < 17"
proof -
  note t = macro_energy_within_rounding [of 1440 "Some ''fat_loss''" light_profile light_stats]
  have h: "valid_profile light_profile \<and> calculate_all light_profile = Inr light_stats"
    using valid_light_profile calculate_all_light_profile by simp
  have b: "4 * s_protein_g light_stats + 4 * s_carbs_g light_stats + 9 * s_fats_g light_stats
             \<le> daily_calories light_stats
           \<and> daily_calories light_stats
             - (4 * s_protein_g light_stats + 4 * s_carbs_g light_stats
                + 9 * s_fats_g light_stats) < 17"
    using t [THEN conjunct2] h by (rule mp)
  show ?thesis
    using b h calculate_macros_1440 by simp
qed

section \<open>The retriever\<close>

lemma results_to_documents_Nil [simp]: "results_to_documents rs = [] \<longleftrightarrow> rs = []"
  by (simp add: results_to_documents_def)

lemma retrieve_workout_unavailable:
  "\<not> is_available r \<Longrightarrow> retrieve_workout_context r q p k = get_fallback_workout_docs"
  by (simp add: retrieve_workout_context_def)

lemma retrieve_diet_unavailable:
  "\<not> is_available r \<Longrightarrow> retrieve_diet_context r q p k = get_fallback_diet_docs"
  by (simp add: retrieve_diet_context_def)

lemma retrieve_workout_available:
  "is_available r \<Longrightarrow>
     retrieve_workout_context r q p k =
       (let results = query (pinecone r) (embedding r) (enhance_query q p ''workout'') k
                        ''workouts'' (build_workout_filter p)
        in if results = [] then get_fallback_workout_docs else results_to_documents results)"
  by (simp add: retrieve_workout_context_def Let_def)

lemma retrieve_diet_available:
  "is_available r \<Longrightarrow>
     retrieve_diet_context r q p k =
       (let results = query (pinecone r) (embedding r) (enhance_query q p ''diet'') k
                        ''diets'' (build_diet_filter p)
        in if results = [] then get_fallback_diet_docs else results_to_documents results)"
  by (simp add: retrieve_diet_context_def Let_def)

lemma fallback_nonempty: "get_fallback_workout_docs \<noteq> []" "get_fallback_diet_docs \<noteq> []"
  by (simp_all add: get_fallback_workout_docs_def get_fallback_diet_docs_def)

lemma offline_unavailable: "\<not> pinecone_is_available (pinecone offline_retriever)"
  by (simp add: offline_retriever_def pinecone_is_available_def)

lemma empty_available: "is_available empty_retriever"
  by (simp add: empty_retriever_def is_available_def pinecone_is_available_def
      embedding_is_available_def)

lemma empty_query: "query (pinecone empty_retriever) (embedding empty_retriever) q k ns f = []"
  by (simp add: empty_retriever_def query_def pinecone_is_available_def
      embedding_is_available_def embed_query_def get_index_def empty_index_def)




text \<open>
  C5.  Whenever the vector-index gateway or the embedding gateway is not available,
  \<open>retrieve_workout_context\<close> returns exactly the one static fallback workout document
  and \<open>retrieve_diet_context\<close> exactly the one static fallback diet document, each with
  score 0.5 and source \<open>fallback\<close> in its metadata, for every query string, profile
  and \<open>top_k\<close>.
\<close>

theorem unavailable_gives_fallback_documents:
  assumes "\<not> pinecone_is_available (pinecone r) \<or> \<not> embedding_is_available (embedding r)"
  shows "retrieve_workout_context r q p k =
           [\<lparr>page_content = JStr fallback_workout_text,
             metadata = [(''type'', JStr ''workout''), (''source'', JStr ''fallback''),
                         (''score'', JNum (5 / 10))]\<rparr>]
         \<and> retrieve_diet_context r q p k =
           [\<lparr>page_content = JStr fallback_diet_text,
             metadata = [(''type'', JStr ''diet''), (''source'', JStr ''fallback''),
                         (''score'', JNum (5 / 10))]\<rparr>]"
proof -
  have "\<not> is_available r"
    using assms by (auto simp: is_available_def)
  then show ?thesis
    by (simp add: retrieve_workout_unavailable retrieve_diet_unavailable
        get_fallback_workout_docs_def get_fallback_diet_docs_def)
qed

theorem unavailable_gives_fallback_documents_witness:
  "\<not> pinecone_is_available (pinecone offline_retriever)
   \<and> retrieve_workout_context offline_retriever ''leg day'' small_profile 5 =
           [\<lparr>page_content = JStr fallback_workout_text,
             metadata = [(''type'', JStr ''workout''), (''source'', JStr ''fallback''),
                         (''score'', JNum (5 / 10))]\<rparr>]
   \<and> retrieve_diet_context offline_retriever ''leg day'' small_profile 5 =
           [\<lparr>page_content = JStr fallback_diet_text,
             metadata = [(''type'', JStr ''diet''), (''source'', JStr ''fallback''),
                         (''score'', JNum (5 / 10))]\<rparr>]"
  using unavailable_gives_fallback_documents [of offline_retriever "''leg day''" small_profile 5]
    offline_unavailable
  by simp

text \<open>
  C10.  For every query string and every profile, \<open>retrieve_workout_context\<close> and
  \<open>retrieve_diet_context\<close> return a list that is not empty: the static fallback
  documents when the gateways are unavailable, and the same fallback documents, put in
  by the retriever itself, when an available gateway returns no match.  So neither list
  of the combined context that the chain retrieves is empty.
\<close>

theorem retrieved_context_never_empty:
  "retrieve_workout_context r q p k \<noteq> [] \<and> retrieve_diet_context r q p k \<noteq> []
   \<and> workouts (retrieve_combined_context r q p k) \<noteq> []
   \<and> diets (retrieve_combined_context r q p k) \<noteq> []
   \<and> (\<not> is_available r \<longrightarrow>
        retrieve_workout_context r q p k = get_fallback_workout_docs
        \<and> retrieve_diet_context r q p k = get_fallback_diet_docs)
   \<and> (is_available r
        \<and> query (pinecone r) (embedding r) (enhance_query q p ''workout'') k ''workouts''
             (build_workout_filter p) = [] \<longrightarrow>
        retrieve_workout_context r q p k = get_fallback_workout_docs)
   \<and> (is_available r
        \<and> query (pinecone r) (embedding r) (enhance_query q p ''diet'') k ''diets''
             (build_diet_filter p) = [] \<longrightarrow>
        retrieve_diet_context r q p k = get_fallback_diet_docs)"
proof (cases "is_available r")
  case True
  then show ?thesis
    by (simp add: retrieve_workout_available retrieve_diet_available Let_def
        retrieve_combined_context_def fallback_nonempty)
next
  case False
  then show ?thesis
    by (simp add: retrieve_workout_unavailable retrieve_diet_unavailable
        retrieve_combined_context_def Let_def fallback_nonempty)
qed

theorem retrieved_context_never_empty_witness:
  "\<not> is_available offline_retriever
   \<and> retrieve_workout_context offline_retriever ''leg day'' small_profile 5
       = get_fallback_workout_docs
   \<and> retrieve_diet_context offline_retriever ''leg day'' small_profile 5 = get_fallback_diet_docs
   \<and> is_available empty_retriever
   \<and> query (pinecone empty_retriever) (embedding empty_retriever)
        (enhance_query ''leg day'' small_profile ''workout'') 5 ''workouts''
        (build_workout_filter small_profile) = []
   \<and> query (pinecone empty_retriever) (embedding empty_retriever)
        (enhance_query ''leg day'' small_profile ''diet'') 5 ''diets''
        (build_diet_filter small_profile) = []
   \<and> retrieve_workout_context empty_retriever ''leg day'' small_profile 5
       = get_fallback_workout_docs
   \<and> retrieve_diet_context empty_retriever ''leg day'' small_profile 5 = get_fallback_diet_docs
   \<and> retrieve_workout_context empty_retriever ''leg day'' small_profile 5 \<noteq> []
   \<and> retrieve_diet_context empty_retriever ''leg day'' small_profile 5 \<noteq> []"
proof -
  have off: "\<not> is_available offline_retriever"
    using offline_unavailable by (simp add: is_available_def)
  from retrieved_context_never_empty [of offline_retriever "''leg day''" small_profile 5] off
  have a: "retrieve_workout_context offline_retriever ''leg day'' small_profile 5
             = get_fallback_workout_docs
           \<and> retrieve_diet_context offline_retriever ''leg day'' small_profile 5
             = get_fallback_diet_docs"
    by blast
  from retrieved_context_never_empty [of empty_retriever "''leg day''" small_profile 5]
    empty_available empty_query
  have b: "retrieve_workout_context empty_retriever ''leg day'' small_profile 5
             = get_fallback_workout_docs
           \<and> retrieve_diet_context empty_retriever ''leg day'' small_profile 5
             = get_fallback_diet_docs
           \<and> retrieve_workout_context empty_retriever ''leg day'' small_profile 5 \<noteq> []
           \<and> retrieve_diet_context empty_retriever ''leg day'' small_profile 5 \<noteq> []"
    by blast
  show ?thesis
    using a b off empty_available empty_query by blast
qed




lemma build_workout_filter_entries:
  "build_workout_filter p =
     (if experience_entry p @ location_entry p = [] then None
      else Some (experience_entry p @ location_entry p))"
  by (auto simp: build_workout_filter_def experience_entry_def location_entry_def Let_def
      split: option.splits)

text \<open>
  C8.  A field counts as present when the profile has it with a value that is not
  empty.  The workout filter then has an exact-match (\<open>$eq\<close>) constraint on
  \<open>experience_level\<close> when that field is present; it has no \<open>location\<close> key when
  \<open>workout_location\<close> is \<open>both\<close> or absent; its \<open>location\<close> entry is an exact
  match on \<open>home\<close> when \<open>workout_location\<close> is \<open>home\<close>, and that entry is the
  whole filter when there is no experience level; a profile with no filterable field
  gives no filter at all; and every entry of a filter is an exact match on the
  profile's own value of that field, never a wildcard.
\<close>

theorem workout_filter_shape:
  "(experience_level p = Some lvl \<and> lvl \<noteq> [] \<longrightarrow>
      (\<exists>f. build_workout_filter p = Some f
           \<and> map_of f ''experience_level'' = Some [(''$eq'', lvl)]))
   \<and> (workout_location p = Some ''both'' \<or> \<not> truthy (workout_location p) \<longrightarrow>
      (\<forall>f. build_workout_filter p = Some f \<longrightarrow> ''location'' \<notin> fst ` set f))
   \<and> (workout_location p = Some ''home'' \<longrightarrow>
      (\<exists>f. build_workout_filter p = Some f
           \<and> map_of f ''location'' = Some [(''$eq'', ''home'')]))
   \<and> (workout_location p = Some ''home'' \<and> \<not> truthy (experience_level p) \<longrightarrow>
      build_workout_filter p = Some [(''location'', [(''$eq'', ''home'')])])
   \<and> (\<not> truthy (experience_level p)
        \<and> (workout_location p = Some ''both'' \<or> \<not> truthy (workout_location p)) \<longrightarrow>
      build_workout_filter p = None)
   \<and> (\<forall>f k c. build_workout_filter p = Some f \<and> (k, c) \<in> set f \<longrightarrow>
        (k = ''experience_level'' \<and> (\<exists>v. experience_level p = Some v \<and> c = [(''$eq'', v)]))
      \<or> (k = ''location'' \<and> (\<exists>v. workout_location p = Some v \<and> c = [(''$eq'', v)])))"
  unfolding build_workout_filter_entries
  by (cases "experience_level p"; cases "workout_location p")
     (auto simp: experience_entry_def location_entry_def split: if_splits)

theorem workout_filter_shape_witness:
  "experience_level small_profile = Some ''beginner''
   \<and> workout_location small_profile = Some ''home''
   \<and> build_workout_filter small_profile =
        Some [(''experience_level'', [(''$eq'', ''beginner'')]),
              (''location'', [(''$eq'', ''home'')])]
   \<and> workout_location home_profile = Some ''home''
   \<and> \<not> truthy (experience_level home_profile)
   \<and> build_workout_filter home_profile = Some [(''location'', [(''$eq'', ''home'')])]
   \<and> workout_location anywhere_profile = Some ''both''
   \<and> build_workout_filter anywhere_profile = None"
proof -
  have s: "experience_level small_profile = Some ''beginner''"
    "workout_location small_profile = Some ''home''"
    by (simp_all add: small_profile_def)
  have a: "build_workout_filter small_profile =
        Some [(''experience_level'', [(''$eq'', ''beginner'')]),
              (''location'', [(''$eq'', ''home'')])]"
    by (simp add: build_workout_filter_def small_profile_def)
  have h: "workout_location home_profile = Some ''home''
           \<and> \<not> truthy (experience_level home_profile)"
    by (simp add: home_profile_def small_profile_def)
  have b: "build_workout_filter home_profile = Some [(''location'', [(''$eq'', ''home'')])]"
    using workout_filter_shape
            [of home_profile, THEN conjunct2, THEN conjunct2, THEN conjunct2, THEN conjunct1] h
    by (rule mp)
  have w: "workout_location anywhere_profile = Some ''both''"
    by (simp add: anywhere_profile_def small_profile_def)
  have n: "\<not> truthy (experience_level anywhere_profile)
           \<and> (workout_location anywhere_profile = Some ''both''
                \<or> \<not> truthy (workout_location anywhere_profile))"
    by (simp add: anywhere_profile_def small_profile_def)
  have c: "build_workout_filter anywhere_profile = None"
    using workout_filter_shape
            [of anywhere_profile, THEN conjunct2, THEN conjunct2, THEN conjunct2,
             THEN conjunct2, THEN conjunct1] n
    by (rule mp)
  show ?thesis
    using s a h b w c by blast
qed

section \<open>The chain\<close>

lemma generate_follow_ups_take: "generate_follow_ups p pt = take 3 (all_follow_ups p pt)"
  by (simp add: generate_follow_ups_def all_follow_ups_def Let_def)

text \<open>
  C4, as stated: two questions for a profile with medical conditions and allergies
  recorded and plan type \<open>both\<close>.  The generator returns three: the workout rule and
  the diet rule add two questions each, and the cut keeps the first three.
\<close>

theorem follow_ups_two_counterexample:
  "truthy (medical_conditions small_profile) \<and> truthy (allergies small_profile)
   \<and> generate_follow_ups small_profile ''both'' =
       [''Do you have access to specific gym equipment?'',
        ''How much time can you dedicate to each workout session?'',
        ''Do you prefer meal prepping or cooking fresh daily?'']
   \<and> length (generate_follow_ups small_profile ''both'') \<noteq> 2"
  by (simp add: generate_follow_ups_take all_follow_ups_def small_profile_def)

text \<open>
  C4, amended.  For every profile with both \<open>medical_conditions\<close> and \<open>allergies\<close>
  populated and plan type \<open>both\<close>, the generator returns exactly three questions: the
  equipment question, the session-time question and the meal-prep question (the
  food-dislikes question falls to the cut).  For every profile and plan type the result
  is the first three of the questions of the rules that fire, in the fixed order
  medical, allergy, workout-specific, diet-specific, so never more than three.
\<close>

theorem follow_ups_first_three:
  "(truthy (medical_conditions p) \<and> truthy (allergies p) \<longrightarrow>
      generate_follow_ups p ''both'' =
        [''Do you have access to specific gym equipment?'',
         ''How much time can you dedicate to each workout session?'',
         ''Do you prefer meal prepping or cooking fresh daily?''])
   \<and> generate_follow_ups q plan_type = take 3 (all_follow_ups q plan_type)
   \<and> length (generate_follow_ups q plan_type) \<le> 3"
  by (simp add: generate_follow_ups_take all_follow_ups_def)

theorem follow_ups_first_three_witness:
  "truthy (medical_conditions small_profile) \<and> truthy (allergies small_profile)
   \<and> generate_follow_ups small_profile ''both'' =
        [''Do you have access to specific gym equipment?'',
         ''How much time can you dedicate to each workout session?'',
         ''Do you prefer meal prepping or cooking fresh daily?'']
   \<and> length (generate_follow_ups small_profile ''both'') \<le> 3"
proof -
  have h: "truthy (medical_conditions small_profile) \<and> truthy (allergies small_profile)"
    by (simp add: small_profile_def)
  show ?thesis
    using follow_ups_first_three [of small_profile small_profile "''both''"] h by simp
qed









section \<open>The ingestion transform\<close>

lemma chunk_id_make_chunk:
  "chunk_id (make_chunk I d src idx dt now p) = generate_chunk_id I src idx (int (fst p))"
  by (simp add: make_chunk_def Let_def)

lemma make_chunk_ids:
  "map (chunk_id \<circ> make_chunk I d src idx dt now) (zip [0 ..< length ts] ts) =
     map (\<lambda>k. generate_chunk_id I src idx (int k)) [0 ..< length ts]"
  by (rule nth_equalityI) (simp_all add: chunk_id_make_chunk)

lemma chunk_json_item_ids:
  "chunk_ids (chunk_json_item I item src idx dt now) = item_chunk_ids I item src idx dt"
  by (cases item)
     (simp_all add: chunk_ids_def chunk_json_item_def item_chunk_ids_def Let_def make_chunk_ids
        split: sum.splits)

lemma chunk_items_ids:
  "chunk_ids (chunk_items I stem dt now idx items) = items_chunk_ids I stem dt idx items"
proof (induction items arbitrary: idx)
  case Nil
  show ?case by (simp add: chunk_ids_def)
next
  case (Cons item rest)
  have item: "chunk_ids (chunk_json_item I item stem (int idx) dt (now idx)) =
                item_chunk_ids I item stem (int idx) dt"
    by (rule chunk_json_item_ids)
  show ?case
    using item Cons.IH [of "Suc idx"]
    by (auto simp: chunk_ids_def split: sum.splits)
qed

lemma process_json_file_ids:
  "chunk_ids (process_json_file I data stem dt now) =
     (case data of
        JList items \<Rightarrow> items_chunk_ids I stem dt 0 items
      | JDict d \<Rightarrow>
          (if ''items'' \<in> fst ` set d
           then (case iterate (dict_get d ''items'' JNull) of
                   Inl e \<Rightarrow> Inl e
                 | Inr items \<Rightarrow> items_chunk_ids I stem dt 0 items)
           else item_chunk_ids I data stem 0 dt)
      | _ \<Rightarrow> Inr [])"
proof (cases data)
  case (JList items)
  then show ?thesis by (simp add: process_json_file_def chunk_items_ids)
next
  case (JDict d)
  then show ?thesis
    using chunk_json_item_ids [of I data stem 0 dt "now 0"]
    by (simp add: process_json_file_def chunk_items_ids split: sum.splits)
       (simp add: chunk_ids_def)
qed (simp_all add: process_json_file_def chunk_ids_def)

lemma sample_run_ids:
  "chunk_ids (process_json_file sample_ingester sample_data ''routines'' ''workouts''
      (\<lambda>i k. ''2026-01-01T00:00:00''))
   = Inr [''md5:routines_0_0'', ''md5:routines_0_1'', ''md5:routines_1_0'',
          ''md5:routines_1_1'']"
  by code_simp

text \<open>
  C9.  The chunk id is the digest of the string made of source file, item index and
  chunk index, and of nothing else.  Two runs of \<open>_process_json_file\<close> over the same
  parsed content of the same file, whatever the clock shows in each, give the same
  chunk ids in the same order (or stop with the same exception): the second run gives
  the store no identifier that the first did not, so an upsert overwrites.  The ids of
  the chunks of one item are those of the triples \<open>(source_file, item_index, k)\<close> for
  \<open>k\<close> below the number of chunks.
\<close>

theorem chunk_ids_stable:
  "chunk_ids (process_json_file I data stem dt now1)
     = chunk_ids (process_json_file I data stem dt now2)
   \<and> chunk_ids (chunk_json_item I item src idx dt now) = item_chunk_ids I item src idx dt
   \<and> generate_chunk_id I src idx k
       = md5_hexdigest I (src @ ''_'' @ str_int idx @ ''_'' @ str_int k)"
  by (simp add: process_json_file_ids chunk_json_item_ids generate_chunk_id_def)

theorem chunk_ids_stable_witness:
  "chunk_ids (process_json_file sample_ingester sample_data ''routines'' ''workouts''
      (\<lambda>i k. ''2026-01-01T00:00:00''))
   = Inr [''md5:routines_0_0'', ''md5:routines_0_1'', ''md5:routines_1_0'',
          ''md5:routines_1_1'']
   \<and> chunk_ids (process_json_file sample_ingester sample_data ''routines'' ''workouts''
      (\<lambda>i k. ''2026-06-30T12:00:00''))
   = Inr [''md5:routines_0_0'', ''md5:routines_0_1'', ''md5:routines_1_0'',
          ''md5:routines_1_1'']"
  using chunk_ids_stable [of sample_ingester sample_data "''routines''" "''workouts''"
          "\<lambda>i k. ''2026-01-01T00:00:00''" "\<lambda>i k. ''2026-06-30T12:00:00''"]
    sample_run_ids
  by simp

end
